theory Spec2Isabelle
  imports Complex_Main
begin

section \<open>JavaScript strings\<close>

text \<open>
  The servers are TypeScript. Text that comes from the request or from a literal of the
  source is a \<^typ>\<open>string\<close>. \<^verbatim>\<open>String.fromCharCode\<close> can build UTF-16 code units
  above 255, which a \<^typ>\<open>char\<close> cannot hold, so the strings that pass through
  \<^verbatim>\<open>charCodeAt\<close> and \<^verbatim>\<open>fromCharCode\<close> (the column letters and the resolved
  range) are lists of code units.
\<close>

type_synonym codeunits = "nat list"

definition js :: "string \<Rightarrow> codeunits" where
  "js s = map of_char s"

text \<open>\<^verbatim>\<open>String.fromCharCode(n)\<close> for a non-negative integer: one code unit, \<open>n\<close> modulo \<open>2^16\<close>.\<close>

definition fromCharCode :: "nat \<Rightarrow> codeunits" where
  "fromCharCode n = [n mod 65536]"

section \<open>Column letters (gdrive server)\<close>

text \<open>
  \<^verbatim>\<open>
  function columnLetterToNumber(column: string): number {
    let result = 0;
    for (let i = 0; i < column.length; i++) {
      result = result * 26 + (column.charCodeAt(i) - 64);
    }
    return result - 1; // 0-based index
  }
  \<close>
  The loop is a left fold over the code units; \<open>columnLoop\<close> carries \<open>result\<close>.

  A JavaScript \<^verbatim>\<open>number\<close> is an IEEE 754 double. The numbers of this program that the
  model computes with are integers: \<open>result\<close> starts at 0 and is multiplied by 26 and
  increased by an integer, and every double from \<open>2^53\<close> on is an integer. So a number is
  an integer that a double can hold, or an infinity (no operation here yields \<^verbatim>\<open>NaN\<close> or
  a negative zero). Each operation gives the exact result rounded to the nearest double,
  ties to the even significand: a natural number of at most 53 bits (one below \<open>2^53\<close>)
  is a double; one of \<open>53 + k\<close> bits is rounded to a multiple of \<open>2^k\<close>; what rounds to
  a number of more than 1024 bits (to \<open>2^1024\<close> or more) is an infinity.
\<close>

fun bit_length :: "nat \<Rightarrow> nat" where
  "bit_length n = (if n = 0 then 0 else Suc (bit_length (n div 2)))"

declare bit_length.simps [simp del]

definition round_to_double :: "nat \<Rightarrow> nat" where
  "round_to_double n =
     (if bit_length n \<le> 53 then n
      else (let k = bit_length n - 53; q = n div 2 ^ k; r = n mod 2 ^ k
            in (if 2 * r < 2 ^ k \<or> (2 * r = 2 ^ k \<and> even q) then q else q + 1) * 2 ^ k))"

datatype number = Finite int | PlusInfinity | MinusInfinity

definition number_of :: "int \<Rightarrow> number" where
  "number_of x =
     (let m = round_to_double (nat \<bar>x\<bar>)
      in if 1024 < bit_length m then (if x < 0 then MinusInfinity else PlusInfinity)
         else Finite (if x < 0 then - int m else int m))"

text \<open>\<^verbatim>\<open>a * 26\<close>, and \<^verbatim>\<open>a + d\<close> for an integer \<open>d\<close> that is itself a double.\<close>

definition times26 :: "number \<Rightarrow> number" where
  "times26 a = (case a of Finite x \<Rightarrow> number_of (x * 26) | _ \<Rightarrow> a)"

definition number_plus :: "number \<Rightarrow> int \<Rightarrow> number" where
  "number_plus a d = (case a of Finite x \<Rightarrow> number_of (x + d) | _ \<Rightarrow> a)"

fun columnLoop :: "number \<Rightarrow> codeunits \<Rightarrow> number" where
  "columnLoop result [] = result"
| "columnLoop result (c # cs) = columnLoop (number_plus (times26 result) (int c - 64)) cs"

definition columnLetterToNumber :: "codeunits \<Rightarrow> number" where
  "columnLetterToNumber column = number_plus (columnLoop (Finite 0) column) (- 1)"

text \<open>
  The specification's reading of a column name: a base-26 positional number without a
  zero digit, the letters \<open>A\<close> to \<open>Z\<close> standing for the digits 1 to 26, and the column
  index one less than that number.
\<close>

definition alphabet :: string where
  "alphabet = ''ABCDEFGHIJKLMNOPQRSTUVWXYZ''"

fun position :: "char \<Rightarrow> string \<Rightarrow> nat" where
  "position c [] = 0"
| "position c (x # xs) = (if c = x then 0 else Suc (position c xs))"

definition letter_digit :: "char \<Rightarrow> int" where
  "letter_digit c = int (position c alphabet) + 1"

definition positional26 :: "string \<Rightarrow> int" where
  "positional26 s = (\<Sum>i<length s. letter_digit (s ! i) * 26 ^ (length s - 1 - i))"

definition letterToIndex_spec :: "string \<Rightarrow> int" where
  "letterToIndex_spec s = positional26 s - 1"

definition uppercase :: "string \<Rightarrow> bool" where
  "uppercase s = list_all (\<lambda>c. c \<in> set alphabet) s"

section \<open>Errors and tool results\<close>

text \<open>
  A thrown JavaScript error is a value: its \<^verbatim>\<open>code\<close> (absent on a plain
  \<^verbatim>\<open>new Error(msg)\<close>, a status number on a backend error) and its message. A handler
  returns \<open>Inr\<close> of its result, or \<open>Inl\<close> of the error it throws.
  A \<^verbatim>\<open>ToolCallResult\<close> carries the texts of its content items and \<^verbatim>\<open>isError\<close>.
\<close>

datatype error = Error (code: "nat option") (message: string)

record ToolCallResult =
  content :: "string list"
  isError :: bool

section \<open>The query tool (mysql server)\<close>

text \<open>
  \<^verbatim>\<open>
  if (request.params.name === "query") {
    const sql = request.params.arguments?.sql as string;
    const connection = await pool.getConnection();
    try {
      await connection.beginTransaction();
      const [result] = await connection.query(sql);
      return { content: [{ type: "text", text: JSON.stringify(result, null, 2) }],
               isError: false };
    } catch (error) {
      throw error;
    } finally {
      try { await connection.rollback(); }
      catch (error) { console.warn("Could not roll back transaction:", error); }
      connection.release();
    }
  }
  throw new Error(`Unknown tool: ${request.params.name}`);
  \<close>
  The database is given by the outcome of each call (\<open>None\<close>: the call succeeds). The
  handler returns what it returns or throws, together with the calls it made on the pool,
  on the connection and on the console, in order.
\<close>

datatype event =
  GetConnection | BeginTransaction | Query "string option" | Stringify
  | Rollback | Warn error | Release

record 'rows database =
  getConnection :: "error option"
  beginTransaction :: "error option"
  query :: "string option \<Rightarrow> error + 'rows"
  stringify :: "'rows \<Rightarrow> error + string"
  rollback :: "error option"

text \<open>The \<^verbatim>\<open>try\<close> block: its completion and the calls it made.\<close>

definition query_try :: "'rows database \<Rightarrow> string option \<Rightarrow> (error + ToolCallResult) \<times> event list" where
  "query_try db sql =
     (case beginTransaction db of
        Some e \<Rightarrow> (Inl e, [BeginTransaction])
      | None \<Rightarrow>
         (case query db sql of
            Inl e \<Rightarrow> (Inl e, [BeginTransaction, Query sql])
          | Inr result \<Rightarrow>
             (case stringify db result of
                Inl e \<Rightarrow> (Inl e, [BeginTransaction, Query sql, Stringify])
              | Inr text \<Rightarrow>
                 (Inr \<lparr>content = [text], isError = False\<rparr>,
                  [BeginTransaction, Query sql, Stringify]))))"

text \<open>The \<^verbatim>\<open>finally\<close> block: it completes normally, whatever the rollback does.\<close>

definition query_finally :: "'rows database \<Rightarrow> event list" where
  "query_finally db =
     (case rollback db of
        None \<Rightarrow> [Rollback]
      | Some e \<Rightarrow> [Rollback, Warn e]) @ [Release]"

definition query_tool :: "'rows database \<Rightarrow> string option \<Rightarrow> (error + ToolCallResult) \<times> event list" where
  "query_tool db sql =
     (case getConnection db of
        Some e \<Rightarrow> (Inl e, [GetConnection])
      | None \<Rightarrow>
         (let (completion, calls) = query_try db sql
          in (completion, [GetConnection] @ calls @ query_finally db)))"

definition mysql_call_tool ::
  "'rows database \<Rightarrow> string \<Rightarrow> string option \<Rightarrow> (error + ToolCallResult) \<times> event list" where
  "mysql_call_tool db name sql =
     (if name = ''query'' then query_tool db sql
      else (Inl (Error None (''Unknown tool: '' @ name)), []))"

text \<open>The last call of a kind comes before another: used to say the rollback precedes the release.\<close>

fun before :: "event \<Rightarrow> event \<Rightarrow> event list \<Rightarrow> bool" where
  "before a b [] = False"
| "before a b (x # xs) = (if x = a then b \<in> set xs else if x = b then False else before a b xs)"

section \<open>Resource URIs (mysql server)\<close>

text \<open>
  \<^verbatim>\<open>
  const SCHEMA_PATH = "schema";
  // ListResources, for each row of the table catalogue:
  uri: new URL(`${row.TABLE_NAME}/${SCHEMA_PATH}`, resourceBaseUrl).href
  // ReadResource:
  const resourceUrl = new URL(request.params.uri);
  const pathComponents = resourceUrl.pathname.split("/");
  const schema = pathComponents.pop();
  const tableName = pathComponents.pop();
  if (schema !== SCHEMA_PATH) { throw new Error("Invalid resource URI"); }
  \<close>
  \<^verbatim>\<open>URL\<close> is the platform's class (the WHATWG URL standard). The model follows the
  standard's parser for a relative reference against a base whose scheme is \<^verbatim>\<open>mysql\<close>
  (not a special scheme) and which has a host, as the database URL has: the base is given
  by its path segments. A reference that carries a scheme or an authority of its own is
  outside this fragment (\<open>OtherUrl\<close>). The client hands the \<^verbatim>\<open>href\<close> back unchanged and
  parsing a serialised URL gives the same path, so the decoder is run on the path of the
  encoded URL.
\<close>

definition SCHEMA_PATH :: string where
  "SCHEMA_PATH = ''schema''"

definition slash :: char where
  "slash = CHR 0x2F"

definition c0_or_space :: "char \<Rightarrow> bool" where
  "c0_or_space c = ((of_char c :: nat) \<le> 0x20)"

definition tab_or_newline :: "char \<Rightarrow> bool" where
  "tab_or_newline c = (c = CHR 0x09 \<or> c = CHR 0x0A \<or> c = CHR 0x0D)"

text \<open>Leading and trailing C0 controls and spaces are stripped, then tabs and newlines removed.\<close>

definition trim_input :: "string \<Rightarrow> string" where
  "trim_input s =
     filter (\<lambda>c. \<not> tab_or_newline c) (rev (dropWhile c0_or_space (rev (dropWhile c0_or_space s))))"

definition ascii_alpha :: "char \<Rightarrow> bool" where
  "ascii_alpha c = (let n = (of_char c :: nat) in (65 \<le> n \<and> n \<le> 90) \<or> (97 \<le> n \<and> n \<le> 122))"

definition ascii_digit :: "char \<Rightarrow> bool" where
  "ascii_digit c = (let n = (of_char c :: nat) in 48 \<le> n \<and> n \<le> 57)"

definition scheme_char :: "char \<Rightarrow> bool" where
  "scheme_char c = (ascii_alpha c \<or> ascii_digit c \<or> c = CHR ''+'' \<or> c = CHR ''-'' \<or> c = CHR ''.'')"

text \<open>Scheme start state and scheme state: a letter, then scheme characters, then a colon.\<close>

definition has_scheme :: "string \<Rightarrow> bool" where
  "has_scheme s =
     (case s of
        [] \<Rightarrow> False
      | c # cs \<Rightarrow> ascii_alpha c \<and>
          (case dropWhile scheme_char cs of [] \<Rightarrow> False | d # _ \<Rightarrow> d = CHR '':''))"

text \<open>
  The path percent-encode set: C0 controls, everything above \<open>~\<close>, and space, \<open>"\<close>, \<open>#\<close>,
  \<open><\<close>, \<open>>\<close>, \<open>?\<close>, \<open>^\<close>, \<open>`\<close>, \<open>{\<close>, \<open>}\<close>.
\<close>

definition in_path_percent_encode_set :: "char \<Rightarrow> bool" where
  "in_path_percent_encode_set c =
     (let n = (of_char c :: nat)
      in n < 0x20 \<or> n > 0x7E
         \<or> n \<in> {0x20, 0x22, 0x23, 0x3C, 0x3E, 0x3F, 0x5E, 0x60, 0x7B, 0x7D})"

definition hex_digit :: "nat \<Rightarrow> char" where
  "hex_digit n = (if n < 10 then char_of (48 + n) else char_of (55 + n))"

definition percent_byte :: "nat \<Rightarrow> string" where
  "percent_byte n = [CHR ''%'', hex_digit (n div 16), hex_digit (n mod 16)]"

text \<open>UTF-8 percent-encoding of a code point below 256: one byte below 128, two above.\<close>

definition utf8_percent_encode :: "char \<Rightarrow> string" where
  "utf8_percent_encode c =
     (let n = (of_char c :: nat)
      in if \<not> in_path_percent_encode_set c then [c]
         else if n < 128 then percent_byte n
         else percent_byte (192 + n div 64) @ percent_byte (128 + n mod 64))"

definition single_dot :: "string \<Rightarrow> bool" where
  "single_dot buf = (buf \<in> {''.'', ''%2e'', ''%2E''})"

definition double_dot :: "string \<Rightarrow> bool" where
  "double_dot buf =
     (buf \<in> {''..'', ''.%2e'', ''.%2E'', ''%2e.'', ''%2E.'',
             ''%2e%2e'', ''%2e%2E'', ''%2E%2e'', ''%2E%2E''})"

text \<open>
  Path state, at a slash or at the end of the path (\<open>at_end\<close>: the end of the input, a
  \<open>?\<close> or a \<open>#\<close>): a double-dot segment shortens the path, a single-dot segment is
  dropped, any other buffer becomes a segment.
\<close>

definition finish_segment :: "string list \<Rightarrow> string \<Rightarrow> bool \<Rightarrow> string list" where
  "finish_segment path buf at_end =
     (if double_dot buf then (if at_end then butlast path @ [[]] else butlast path)
      else if single_dot buf then (if at_end then path @ [[]] else path)
      else path @ [buf])"

fun path_state :: "string list \<Rightarrow> string \<Rightarrow> string \<Rightarrow> string list" where
  "path_state path buf [] = finish_segment path buf True"
| "path_state path buf (c # cs) =
     (if c = slash then path_state (finish_segment path buf False) [] cs
      else if c = CHR ''?'' \<or> c = CHR ''#'' then finish_segment path buf True
      else path_state path (buf @ utf8_percent_encode c) cs)"

datatype url_path = Segments "string list" | OtherUrl

text \<open>
  No scheme state, relative state and relative slash state: a reference that starts with
  one slash replaces the base's path, one that starts with \<open>?\<close> or \<open>#\<close> (or is empty)
  keeps it, any other replaces the base's last segment.
\<close>

definition url_resolve :: "string \<Rightarrow> string list \<Rightarrow> url_path" where
  "url_resolve input base_path =
     (let s = trim_input input
      in if has_scheme s then OtherUrl
         else (case s of
            [] \<Rightarrow> Segments base_path
          | c # cs \<Rightarrow>
              if c = slash then
                (case cs of
                   [] \<Rightarrow> Segments (path_state [] [] cs)
                 | d # _ \<Rightarrow> if d = slash then OtherUrl else Segments (path_state [] [] cs))
              else if c = CHR ''?'' \<or> c = CHR ''#'' then Segments base_path
              else Segments (path_state (butlast base_path) [] s)))"

text \<open>The \<^verbatim>\<open>pathname\<close> getter: every segment after a slash.\<close>

definition pathname :: "string list \<Rightarrow> string" where
  "pathname path = concat (map (\<lambda>seg. slash # seg) path)"

text \<open>ListResources: the path of the resource URI of a table (\<open>None\<close> outside the fragment).\<close>

definition resource_pathname :: "string list \<Rightarrow> string \<Rightarrow> string option" where
  "resource_pathname base_path TABLE_NAME =
     (case url_resolve (TABLE_NAME @ [slash] @ SCHEMA_PATH) base_path of
        Segments path \<Rightarrow> Some (pathname path)
      | OtherUrl \<Rightarrow> None)"

text \<open>\<^verbatim>\<open>String.prototype.split\<close> on a one-character separator: never an empty array.\<close>

fun split_from :: "char \<Rightarrow> string \<Rightarrow> string \<Rightarrow> string list" where
  "split_from sep cur [] = [cur]"
| "split_from sep cur (c # cs) =
     (if c = sep then cur # split_from sep [] cs else split_from sep (cur @ [c]) cs)"

definition split_on :: "char \<Rightarrow> string \<Rightarrow> string list" where
  "split_on sep s = split_from sep [] s"

text \<open>\<^verbatim>\<open>Array.prototype.pop\<close>: the last element, \<^verbatim>\<open>undefined\<close> on an empty array.\<close>

definition pop :: "'a list \<Rightarrow> 'a option \<times> 'a list" where
  "pop xs = (if xs = [] then (None, []) else (Some (last xs), butlast xs))"

text \<open>ReadResource, up to the guard: the table name and the view it goes on with, or the
  error thrown.\<close>

definition read_resource_decode :: "string \<Rightarrow> error + string option \<times> string option" where
  "read_resource_decode url_pathname =
     (let pathComponents = split_on slash url_pathname;
          (schema, pathComponents1) = pop pathComponents;
          (tableName, pathComponents2) = pop pathComponents1
      in if schema \<noteq> Some SCHEMA_PATH then Inl (Error None ''Invalid resource URI'')
         else Inr (tableName, schema))"

text \<open>
  Table names that the parser passes through: no character that is percent-encoded, no
  slash, no colon, and not a dot segment.
\<close>

definition plain_name :: "string \<Rightarrow> bool" where
  "plain_name t =
     (list_all (\<lambda>c. \<not> in_path_percent_encode_set c \<and> c \<noteq> slash \<and> c \<noteq> CHR '':'') t
      \<and> \<not> single_dot t \<and> \<not> double_dot t)"

section \<open>The Drive and Sheets backend (gdrive server)\<close>

text \<open>
  The literals of the gdrive server are Vietnamese; they are written here without their
  diacritics, since a \<^typ>\<open>char\<close> holds one byte. No property below depends on their
  wording.
\<close>

definition nl :: string where
  "nl = [CHR 0x0A]"

definition dquote :: string where
  "dquote = [CHR 0x22]"

text \<open>\<^verbatim>\<open>String.prototype.includes\<close>: the needle starts at some position of the string.\<close>

definition starts_with :: "string \<Rightarrow> string \<Rightarrow> bool" where
  "starts_with lit s = (take (length lit) s = lit)"

fun includes_js :: "string \<Rightarrow> string \<Rightarrow> bool" where
  "includes_js [] needle = (needle = [])"
| "includes_js (c # cs) needle = (starts_with needle (c # cs) \<or> includes_js cs needle)"

text \<open>\<^verbatim>\<open>Array.prototype.join\<close>.\<close>

fun join :: "string \<Rightarrow> string list \<Rightarrow> string" where
  "join sep [] = []"
| "join sep [x] = x"
| "join sep (x # y # ys) = x @ sep @ join sep (y # ys)"

text \<open>A non-negative integer in a template literal: its decimal digits (below \<open>10^21\<close>).\<close>

fun numberToString :: "nat \<Rightarrow> string" where
  "numberToString n =
     (if n < 10 then [char_of (48 + n)]
      else numberToString (n div 10) @ [char_of (48 + n mod 10)])"

declare numberToString.simps [simp del]

text \<open>A string that may be \<^verbatim>\<open>undefined\<close> is truthy when it is defined and not empty.\<close>

definition truthy :: "string option \<Rightarrow> bool" where
  "truthy s = (s \<noteq> None \<and> s \<noteq> Some [])"

text \<open>What a template literal prints for a value that may be \<^verbatim>\<open>undefined\<close>.\<close>

definition print_string :: "string option \<Rightarrow> string" where
  "print_string s = (case s of None \<Rightarrow> ''undefined'' | Some x \<Rightarrow> x)"

definition print_number :: "nat option \<Rightarrow> string" where
  "print_number n = (case n of None \<Rightarrow> ''undefined'' | Some x \<Rightarrow> numberToString x)"

text \<open>Reading a property of \<^verbatim>\<open>undefined\<close> throws a \<^verbatim>\<open>TypeError\<close>.\<close>

definition TypeError :: "string \<Rightarrow> error" where
  "TypeError property = Error None (''Cannot read properties of undefined (reading '' @ property @ '')'')"

subsection \<open>Data of the backend\<close>

text \<open>
  The answer of \<^verbatim>\<open>drive.files.get\<close>, with \<^verbatim>\<open>capabilities?.canEdit\<close> and
  \<^verbatim>\<open>capabilities?.canReadRevisions\<close> read through their optional chains.
\<close>

record file_data =
  mimeType :: "string option"
  canReadRevisions :: "bool option"
  canEdit :: "bool option"

record permission =
  perm_type :: "string option"

record drive_file =
  file_name :: "string option"
  file_mimeType :: "string option"

text \<open>
  A sheet of the answer of \<^verbatim>\<open>sheets.spreadsheets.get\<close>: \<^verbatim>\<open>properties?.title\<close>,
  \<^verbatim>\<open>properties?.sheetId\<close>, \<^verbatim>\<open>properties?.gridProperties?.rowCount\<close> and
  \<^verbatim>\<open>columnCount\<close>.
\<close>

record sheet =
  title :: "string option"
  sheetId :: "nat option"
  rowCount :: "nat option"
  columnCount :: "nat option"

record update_response =
  status :: nat
  updatedRows :: "nat option"
  updatedColumns :: "nat option"
  updatedCells :: "nat option"

text \<open>A JSON value of the format object sent to the Sheets API; an object keeps its keys in order.\<close>

datatype fvalue = Num rat | Bool bool | Str string | Obj "(string \<times> fvalue) list"

text \<open>The \<^verbatim>\<open>repeatCell\<close> request of \<^verbatim>\<open>format_sheet\<close>.\<close>

record repeatCell =
  range_sheetId :: nat
  startRowIndex :: number
  endRowIndex :: number
  startColumnIndex :: number
  endColumnIndex :: number
  userEnteredFormat :: "(string \<times> fvalue) list"
  fields_mask :: string

text \<open>
  The Google APIs, each call given by its outcome as a function of its arguments (\<open>Inl\<close>:
  the promise is rejected with that error).
\<close>

record google =
  about_get :: "error + string option"
  files_get :: "string \<Rightarrow> error + file_data"
  permissions_list :: "string \<Rightarrow> error + permission list option"
  files_list :: "string \<Rightarrow> error + drive_file list option"
  spreadsheets_get :: "string \<Rightarrow> error + sheet list option"
  spreadsheets_get_ranges :: "string \<Rightarrow> string \<Rightarrow> error + sheet list option"
  values_get :: "string \<Rightarrow> codeunits \<Rightarrow> error + string list list option"
  values_update :: "string \<Rightarrow> string \<Rightarrow> string list list \<Rightarrow> error + update_response"
  batchUpdate :: "string \<Rightarrow> repeatCell \<Rightarrow> error + nat"

text \<open>
  The platform's functions that the handlers call and that are not modelled further:
  \<^verbatim>\<open>new URL(input)\<close> (\<open>None\<close> when it throws; otherwise the \<^verbatim>\<open>pathname\<close> and
  \<^verbatim>\<open>searchParams.get('id')\<close>), \<^verbatim>\<open>toUpperCase\<close>, and \<^verbatim>\<open>JSON.stringify\<close> of the
  sheet list.
\<close>

record platform =
  url_parse :: "string \<Rightarrow> (string \<times> string option) option"
  toUpperCase :: "string \<Rightarrow> string"
  stringify_sheets :: "sheet list option \<Rightarrow> string"

subsection \<open>extractFileIdFromUrl\<close>

text \<open>
  \<^verbatim>\<open>
  function extractFileIdFromUrl(input: string): string {
    if (!input.includes('http')) return input;
    try {
      const url = new URL(input);
      const d = url.pathname.match(/\/d\/([a-zA-Z0-9-_]+)/);
      if (d) return d[1];
      const spreadsheet = url.pathname.match(/\/spreadsheets\/d\/([a-zA-Z0-9-_]+)/);
      if (spreadsheet) return spreadsheet[1];
      const id = url.searchParams.get('id');
      if (id) return id;
      throw new Error('Khong the trich xuat ID tu URL');
    } catch (err) {
      throw new Error('URL khong hop le');
    }
  }
  \<close>
  \<open>regex_capture lit\<close> is the search for \<open>lit\<close> followed by one or more characters of the
  class: the leftmost position where that matches, and the longest run there.
\<close>

definition id_char :: "char \<Rightarrow> bool" where
  "id_char c = (ascii_alpha c \<or> ascii_digit c \<or> c = CHR ''-'' \<or> c = CHR ''_'')"

fun regex_capture :: "string \<Rightarrow> string \<Rightarrow> string option" where
  "regex_capture lit [] = None"
| "regex_capture lit (c # cs) =
     (let run = takeWhile id_char (drop (length lit) (c # cs))
      in if starts_with lit (c # cs) \<and> run \<noteq> [] then Some run else regex_capture lit cs)"

definition extractFileIdFromUrl :: "platform \<Rightarrow> string option \<Rightarrow> error + string" where
  "extractFileIdFromUrl pf arg =
     (case arg of
        None \<Rightarrow> Inl (TypeError ''includes'')
      | Some input \<Rightarrow>
          if \<not> includes_js input ''http'' then Inr input
          else (case url_parse pf input of
             None \<Rightarrow> Inl (Error None ''URL khong hop le'')
           | Some (url_pathname, id_param) \<Rightarrow>
              (case regex_capture ''/d/'' url_pathname of
                 Some d \<Rightarrow> Inr d
               | None \<Rightarrow>
                  (case regex_capture ''/spreadsheets/d/'' url_pathname of
                     Some spreadsheet \<Rightarrow> Inr spreadsheet
                   | None \<Rightarrow>
                      if truthy id_param then Inr (print_string id_param)
                      else Inl (Error None ''URL khong hop le'')))))"

subsection \<open>getCurrentUserEmail and verifyFileAccess\<close>

text \<open>
  \<^verbatim>\<open>
  async function getCurrentUserEmail(): Promise<string> {
    try {
      const about = await drive.about.get({ fields: 'user(emailAddress)' });
      return about.data.user?.emailAddress || '';
    } catch (err) { console.error(...); return ''; }
  }
  \<close>
\<close>

definition getCurrentUserEmail :: "google \<Rightarrow> string" where
  "getCurrentUserEmail g =
     (case about_get g of
        Inl err \<Rightarrow> []
      | Inr emailAddress \<Rightarrow> if truthy emailAddress then print_string emailAddress else [])"

definition not_spreadsheet_message :: string where
  "not_spreadsheet_message = ''File khong phai la Google Spreadsheet''"

definition no_edit_message :: "string \<Rightarrow> string" where
  "no_edit_message userEmail =
     ''Khong co quyen chinh sua file.'' @ nl @
     ''Email dang su dung: '' @ userEmail @ nl @
     ''Vui long:'' @ nl @
     ''1. Dam bao file duoc chia se voi email cua ban voi quyen chinh sua'' @ nl @
     ''2. Hoac dat che do chia se '' @ dquote @ ''Anyone with the link can edit'' @ dquote @ nl @
     ''3. Thu xac thuc lai bang lenh: node dist/index.js auth''"

definition no_access_message :: "string \<Rightarrow> string" where
  "no_access_message userEmail =
     ''Khong co quyen truy cap file.'' @ nl @
     ''Email dang su dung: '' @ userEmail @ nl @
     ''Vui long:'' @ nl @
     ''1. Dam bao file duoc chia se voi email cua ban'' @ nl @
     ''2. Hoac dat che do chia se '' @ dquote @ ''Anyone with the link can view'' @ dquote @ nl @
     ''3. Thu xac thuc lai bang lenh: node dist/index.js auth''"

definition not_found_message :: "string \<Rightarrow> string" where
  "not_found_message userEmail =
     ''File khong ton tai hoac ban khong co quyen truy cap.'' @ nl @
     ''Email dang su dung: '' @ userEmail @ nl @
     ''Vui long kiem tra:'' @ nl @
     ''1. URL hoac ID file chinh xac'' @ nl @
     ''2. File da duoc chia se voi email cua ban'' @ nl @
     ''3. Ban da xac thuc voi dung tai khoan Google''"

text \<open>
  \<^verbatim>\<open>
  async function verifyFileAccess(fileId: string, requireEdit: boolean = false) {
    try {
      const file = await drive.files.get({ fileId, fields: "...capabilities(...)..." });
      if (!file.data.mimeType?.includes('spreadsheet')) throw new Error('File khong phai ...');
      const permissions = await drive.permissions.list({ fileId, fields: '...' });
      const isPublic = permissions.data.permissions?.some(
        p => p.type === 'anyone' || p.type === 'domain');
      const hasReadAccess = file.data.capabilities?.canReadRevisions === true;
      const hasEditAccess = file.data.capabilities?.canEdit === true;
      if (requireEdit && !hasEditAccess) {
        const userEmail = await getCurrentUserEmail();
        throw new Error('Khong co quyen chinh sua file.\n' + `Email dang su dung: ${userEmail}\n` + ...);
      }
      if (!isPublic && !hasReadAccess) {
        const userEmail = await getCurrentUserEmail();
        throw new Error('Khong co quyen truy cap file.\n' + `Email dang su dung: ${userEmail}\n` + ...);
      }
      return true;
    } catch (err: any) {
      if (err.code === 404) {
        const userEmail = await getCurrentUserEmail();
        throw new Error('File khong ton tai hoac ban khong co quyen truy cap.\n' + ...);
      }
      throw err;
    }
  }
  \<close>
  \<open>verifyFileAccess_try\<close> is the \<^verbatim>\<open>try\<close> block, \<open>verifyFileAccess\<close> adds the \<^verbatim>\<open>catch\<close>.
\<close>

definition isPublic :: "permission list option \<Rightarrow> bool" where
  "isPublic permissions =
     (case permissions of
        None \<Rightarrow> False
      | Some ps \<Rightarrow> list_ex (\<lambda>p. perm_type p = Some ''anyone'' \<or> perm_type p = Some ''domain'') ps)"

definition verifyFileAccess_try :: "google \<Rightarrow> string \<Rightarrow> bool \<Rightarrow> error + bool" where
  "verifyFileAccess_try g fileId requireEdit =
     (case files_get g fileId of
        Inl err \<Rightarrow> Inl err
      | Inr file \<Rightarrow>
          if \<not> (case mimeType file of None \<Rightarrow> False | Some m \<Rightarrow> includes_js m ''spreadsheet'')
          then Inl (Error None not_spreadsheet_message)
          else (case permissions_list g fileId of
             Inl err \<Rightarrow> Inl err
           | Inr permissions \<Rightarrow>
              (let hasReadAccess = (canReadRevisions file = Some True);
                   hasEditAccess = (canEdit file = Some True)
               in if requireEdit \<and> \<not> hasEditAccess
                  then Inl (Error None (no_edit_message (getCurrentUserEmail g)))
                  else if \<not> isPublic permissions \<and> \<not> hasReadAccess
                  then Inl (Error None (no_access_message (getCurrentUserEmail g)))
                  else Inr True)))"

definition verifyFileAccess :: "google \<Rightarrow> string \<Rightarrow> bool \<Rightarrow> error + bool" where
  "verifyFileAccess g fileId requireEdit =
     (case verifyFileAccess_try g fileId requireEdit of
        Inr ok \<Rightarrow> Inr ok
      | Inl err \<Rightarrow>
          if code err = Some 404
          then Inl (Error None (not_found_message (getCurrentUserEmail g)))
          else Inl err)"

section \<open>The tools of the gdrive server\<close>

text \<open>
  The arguments of a tool call, typed as the tools' input schemas declare them, each
  \<open>None\<close> when the caller left it out. \<open>own_keys\<close> is \<^verbatim>\<open>Object.keys(formatting)\<close>, the keys
  in the caller's order.
\<close>

record formatting =
  backgroundColor :: "string option"
  textColor :: "string option"
  fontSize :: "rat option"
  bold :: "bool option"
  italic :: "bool option"
  horizontalAlignment :: "string option"
  verticalAlignment :: "string option"
  own_keys :: "string list"

record arguments =
  arg_query :: "string option"
  arg_fileId :: "string option"
  arg_sheetName :: "string option"
  arg_range :: "string option"
  arg_values :: "string list list option"
  arg_formatting :: "formatting option"

subsection \<open>search\<close>

text \<open>
  \<^verbatim>\<open>
  const userQuery = request.params.arguments?.query as string;
  const escapedQuery = userQuery.replace(/\\/g, "\\\\").replace(/'/g, "\\'");
  const formattedQuery = `fullText contains '${escapedQuery}'`;
  const res = await drive.files.list({ q: formattedQuery, pageSize: 10, fields: "..." });
  const fileList = res.data.files?.map((file: any) => `${file.name} (${file.mimeType})`).join("\n");
  return { content: [{ type: "text",
             text: `Found ${res.data.files?.length ?? 0} files:\n${fileList}` }],
           isError: false };
  \<close>
  There is no \<^verbatim>\<open>try\<close> around it.
\<close>

definition backslash :: char where
  "backslash = CHR 0x5C"

definition quote :: char where
  "quote = CHR 0x27"

text \<open>\<^verbatim>\<open>replace\<close> with a global one-character pattern: every occurrence, left to right.\<close>

definition replace_all :: "char \<Rightarrow> string \<Rightarrow> string \<Rightarrow> string" where
  "replace_all c replacement s = concat (map (\<lambda>x. if x = c then replacement else [x]) s)"

definition escapedQuery :: "string \<Rightarrow> string" where
  "escapedQuery userQuery =
     replace_all quote [backslash, quote] (replace_all backslash [backslash, backslash] userQuery)"

definition formattedQuery :: "string \<Rightarrow> string" where
  "formattedQuery userQuery = ''fullText contains '' @ [quote] @ escapedQuery userQuery @ [quote]"

definition search_tool :: "google \<Rightarrow> arguments \<Rightarrow> error + ToolCallResult" where
  "search_tool g args =
     (case arg_query args of
        None \<Rightarrow> Inl (TypeError ''replace'')
      | Some userQuery \<Rightarrow>
         (case files_list g (formattedQuery userQuery) of
            Inl err \<Rightarrow> Inl err
          | Inr files \<Rightarrow>
             (let fileList = (case files of
                      None \<Rightarrow> ''undefined''
                    | Some fs \<Rightarrow> join nl (map (\<lambda>file. print_string (file_name file) @ '' (''
                                   @ print_string (file_mimeType file) @ '')'') fs));
                  count = (case files of None \<Rightarrow> 0 | Some fs \<Rightarrow> length fs)
              in Inr \<lparr>content = [''Found '' @ numberToString count @ '' files:'' @ nl @ fileList],
                      isError = False\<rparr>)))"

subsection \<open>list_sheets\<close>

text \<open>
  \<^verbatim>\<open>
  try {
    const inputId = request.params.arguments?.fileId as string;
    const fileId = extractFileIdFromUrl(inputId);
    await verifyFileAccess(fileId);
    const response = await sheets.spreadsheets.get({ spreadsheetId: fileId, fields: "sheets.properties" });
    const sheetsList = response.data.sheets?.map(...);
    return { content: [{ type: "text",
               text: `Danh sach cac sheet:\n${JSON.stringify(sheetsList, null, 2)}` }],
             isError: false };
  } catch (err) {
    const error = err as Error;
    return { content: [{ type: "text", text: `Khong the lay danh sach sheet. Loi: ${error.message}\n` + ... }],
             isError: true };
  }
  \<close>
\<close>

definition list_sheets_try :: "platform \<Rightarrow> google \<Rightarrow> arguments \<Rightarrow> error + ToolCallResult" where
  "list_sheets_try pf g args =
     (case extractFileIdFromUrl pf (arg_fileId args) of
        Inl err \<Rightarrow> Inl err
      | Inr fileId \<Rightarrow>
         (case verifyFileAccess g fileId False of
            Inl err \<Rightarrow> Inl err
          | Inr ok \<Rightarrow>
             (case spreadsheets_get g fileId of
                Inl err \<Rightarrow> Inl err
              | Inr sheets \<Rightarrow>
                  Inr \<lparr>content = [''Danh sach cac sheet:'' @ nl @ stringify_sheets pf sheets],
                       isError = False\<rparr>)))"

definition list_sheets_failure :: "error \<Rightarrow> ToolCallResult" where
  "list_sheets_failure err =
     \<lparr>content = [''Khong the lay danh sach sheet. Loi: '' @ message err @ nl @
         ''Vui long kiem tra:'' @ nl @
         ''1. URL hoac ID chinh xac'' @ nl @
         ''2. File la Google Spreadsheet'' @ nl @
         ''3. File da duoc chia se voi ban''],
      isError = True\<rparr>"

definition list_sheets_tool :: "platform \<Rightarrow> google \<Rightarrow> arguments \<Rightarrow> error + ToolCallResult" where
  "list_sheets_tool pf g args =
     (case list_sheets_try pf g args of
        Inr result \<Rightarrow> Inr result
      | Inl err \<Rightarrow> Inr (list_sheets_failure err))"

subsection \<open>read_sheet\<close>

text \<open>
  The result that \<^verbatim>\<open>read_sheet\<close>, \<^verbatim>\<open>edit_sheet\<close> and \<^verbatim>\<open>format_sheet\<close> return from the
  inner \<^verbatim>\<open>catch\<close> around \<^verbatim>\<open>verifyFileAccess\<close>:
  \<^verbatim>\<open>
  text: `${error.message}\n\n` + `Email dang su dung: ${userEmail}\n` + `File ID: ${fileId}`
  isError: true
  \<close>
\<close>

definition access_failure :: "error \<Rightarrow> string \<Rightarrow> string \<Rightarrow> ToolCallResult" where
  "access_failure err userEmail fileId =
     \<lparr>content = [message err @ nl @ nl @
         ''Email dang su dung: '' @ userEmail @ nl @
         ''File ID: '' @ fileId],
      isError = True\<rparr>"

text \<open>
  \<^verbatim>\<open>
  let actualRange: string | undefined = rangeInput;
  if (sheetName && !rangeInput) {
    const metadata = await sheets.spreadsheets.get({ spreadsheetId: fileId, fields: "sheets.properties" });
    const sheet = metadata.data.sheets?.find((s: Sheet) => s.properties?.title === sheetName);
    if (!sheet) { throw new Error(`Khong tim thay sheet co ten "${sheetName}"`); }
    actualRange = `${sheetName}!A1:${String.fromCharCode(64 +
      (sheet.properties?.gridProperties?.columnCount || 26))}${
      sheet.properties?.gridProperties?.rowCount || 1000}`;
  }
  const effectiveRange: string = actualRange || sheetName || 'Sheet1!A1:Z1000';
  \<close>
  \<open>lastColumnLetter\<close> is the conversion from the number of columns to the letter of the last
  column; \<open>or_default\<close> is \<^verbatim>\<open>||\<close> on a number that may be \<^verbatim>\<open>undefined\<close>.
\<close>

definition or_default :: "nat option \<Rightarrow> nat \<Rightarrow> nat" where
  "or_default n d = (case n of None \<Rightarrow> d | Some x \<Rightarrow> if x = 0 then d else x)"

definition lastColumnLetter :: "nat \<Rightarrow> codeunits" where
  "lastColumnLetter columns = fromCharCode (64 + columns)"

definition usedRange :: "string \<Rightarrow> sheet \<Rightarrow> codeunits" where
  "usedRange sheetName sheet =
     js sheetName @ js ''!A1:'' @ lastColumnLetter (or_default (columnCount sheet) 26)
       @ js (numberToString (or_default (rowCount sheet) 1000))"

definition effectiveRange :: "google \<Rightarrow> string \<Rightarrow> string option \<Rightarrow> string option \<Rightarrow> error + codeunits" where
  "effectiveRange g fileId sheetName rangeInput =
     (case (case sheetName of
              None \<Rightarrow> Inr (map_option js rangeInput)
            | Some name \<Rightarrow>
                if name \<noteq> [] \<and> \<not> truthy rangeInput then
                  (case spreadsheets_get g fileId of
                     Inl err \<Rightarrow> Inl err
                   | Inr sheets \<Rightarrow>
                      (case find (\<lambda>s. title s = Some name) (case sheets of None \<Rightarrow> [] | Some ss \<Rightarrow> ss) of
                         None \<Rightarrow> Inl (Error None (''Khong tim thay sheet co ten '' @ dquote @ name @ dquote))
                       | Some sheet \<Rightarrow> Inr (Some (usedRange name sheet))))
                else Inr (map_option js rangeInput)) of
        Inl err \<Rightarrow> Inl err
      | Inr actualRange \<Rightarrow>
          Inr (case actualRange of
                 Some r \<Rightarrow> if r \<noteq> [] then r
                           else if truthy sheetName then js (print_string sheetName)
                           else js ''Sheet1!A1:Z1000''
               | None \<Rightarrow> if truthy sheetName then js (print_string sheetName)
                         else js ''Sheet1!A1:Z1000''))"

text \<open>
  \<^verbatim>\<open>
  try {
    const fileId = extractFileIdFromUrl(inputId);
    const userEmail = await getCurrentUserEmail();
    try { await verifyFileAccess(fileId); }
    catch (err) { return { ...access failure..., isError: true }; }
    ... effectiveRange ...
    const response = await sheets.spreadsheets.values.get({ spreadsheetId: fileId, range: effectiveRange, ... });
    if (!response.data || !response.data.values || response.data.values.length === 0) {
      return { content: [{ type: "text", text: "Sheet khong co du lieu" }], isError: false };
    }
    const formattedData = response.data.values.map((row: any[]) =>
      row.map((cell: any) => (cell?.toString() || '')).join(',')).join('\n');
    return { content: [{ type: "text", text: `Du lieu sheet:\n${formattedData}` }], isError: false };
  } catch (err) { return { ...read failure..., isError: true }; }
  \<close>
\<close>

definition read_sheet_try :: "platform \<Rightarrow> google \<Rightarrow> arguments \<Rightarrow> error + ToolCallResult" where
  "read_sheet_try pf g args =
     (case extractFileIdFromUrl pf (arg_fileId args) of
        Inl err \<Rightarrow> Inl err
      | Inr fileId \<Rightarrow>
         (let userEmail = getCurrentUserEmail g
          in case verifyFileAccess g fileId False of
               Inl err \<Rightarrow> Inr (access_failure err userEmail fileId)
             | Inr ok \<Rightarrow>
                (case effectiveRange g fileId (arg_sheetName args) (arg_range args) of
                   Inl err \<Rightarrow> Inl err
                 | Inr resolved \<Rightarrow>
                    (case values_get g fileId resolved of
                       Inl err \<Rightarrow> Inl err
                     | Inr None \<Rightarrow> Inr \<lparr>content = [''Sheet khong co du lieu''], isError = False\<rparr>
                     | Inr (Some rows) \<Rightarrow>
                         if rows = [] then Inr \<lparr>content = [''Sheet khong co du lieu''], isError = False\<rparr>
                         else Inr \<lparr>content = [''Du lieu sheet:'' @ nl @ join nl (map (join '','') rows)],
                                   isError = False\<rparr>))))"

definition read_sheet_failure :: "error \<Rightarrow> ToolCallResult" where
  "read_sheet_failure err =
     \<lparr>content = [''Khong the doc sheet. Loi: '' @ message err @ nl @
         ''Vui long kiem tra:'' @ nl @
         ''1. URL hoac ID chinh xac'' @ nl @
         ''2. File la Google Spreadsheet'' @ nl @
         ''3. File da duoc chia se voi ban'' @ nl @
         ''4. Ten sheet chinh xac (neu co cung cap)''],
      isError = True\<rparr>"

definition read_sheet_tool :: "platform \<Rightarrow> google \<Rightarrow> arguments \<Rightarrow> error + ToolCallResult" where
  "read_sheet_tool pf g args =
     (case read_sheet_try pf g args of
        Inr result \<Rightarrow> Inr result
      | Inl err \<Rightarrow> Inr (read_sheet_failure err))"

subsection \<open>edit_sheet\<close>

text \<open>
  \<^verbatim>\<open>
  let actualRange = rangeInput;
  if (sheetName && !rangeInput.includes('!')) { actualRange = `${sheetName}!${rangeInput}`; }
  if (!actualRange.includes('!')) { actualRange = `Sheet1!${actualRange}`; }
  \<close>
  shared by \<^verbatim>\<open>edit_sheet\<close> and \<^verbatim>\<open>format_sheet\<close>; a missing \<^verbatim>\<open>range\<close> argument makes
  \<^verbatim>\<open>includes\<close> throw.
\<close>

definition qualifiedRange :: "string option \<Rightarrow> string option \<Rightarrow> error + string" where
  "qualifiedRange sheetName rangeArg =
     (case rangeArg of
        None \<Rightarrow> Inl (TypeError ''includes'')
      | Some rangeInput \<Rightarrow>
         (let actualRange =
                (if truthy sheetName \<and> \<not> includes_js rangeInput ''!''
                 then print_string sheetName @ ''!'' @ rangeInput else rangeInput)
          in Inr (if \<not> includes_js actualRange ''!'' then ''Sheet1!'' @ actualRange else actualRange)))"

text \<open>\<^verbatim>\<open>actualRange.split('!')[i]\<close> in a template literal.\<close>

definition range_part :: "string \<Rightarrow> nat \<Rightarrow> string" where
  "range_part actualRange i =
     (let parts = split_on CHR ''!'' actualRange
      in if i < length parts then parts ! i else ''undefined'')"

text \<open>
  \<^verbatim>\<open>
  try {
    const fileId = extractFileIdFromUrl(inputId);
    const userEmail = await getCurrentUserEmail();
    try { await verifyFileAccess(fileId, true); }
    catch (err) { return { ...access failure..., isError: true }; }
    if (!values || !Array.isArray(values)) { throw new Error('Du lieu cung cap khong hop le. ...'); }
    ... actualRange ...
    const updateResponse = await sheets.spreadsheets.values.update({ spreadsheetId: fileId,
      range: actualRange, valueInputOption: 'USER_ENTERED', requestBody: { values: values } });
    if (updateResponse.status !== 200) { throw new Error(`Cap nhat that bai. Ma trang thai: ${...status}`); }
    return { content: [{ type: "text", text: `Cap nhat thanh cong!\n` + ... }], isError: false };
  } catch (err) { return { ...edit failure..., isError: true }; }
  \<close>
\<close>

definition edit_sheet_try :: "platform \<Rightarrow> google \<Rightarrow> arguments \<Rightarrow> error + ToolCallResult" where
  "edit_sheet_try pf g args =
     (case extractFileIdFromUrl pf (arg_fileId args) of
        Inl err \<Rightarrow> Inl err
      | Inr fileId \<Rightarrow>
         (let userEmail = getCurrentUserEmail g
          in case verifyFileAccess g fileId True of
               Inl err \<Rightarrow> Inr (access_failure err userEmail fileId)
             | Inr ok \<Rightarrow>
                (case arg_values args of
                   None \<Rightarrow> Inl (Error None ''Du lieu cung cap khong hop le. Can phai la mang 2 chieu.'')
                 | Some vals \<Rightarrow>
                    (case qualifiedRange (arg_sheetName args) (arg_range args) of
                       Inl err \<Rightarrow> Inl err
                     | Inr actualRange \<Rightarrow>
                        (case values_update g fileId actualRange vals of
                           Inl err \<Rightarrow> Inl err
                         | Inr updateResponse \<Rightarrow>
                             if status updateResponse \<noteq> 200
                             then Inl (Error None (''Cap nhat that bai. Ma trang thai: ''
                                     @ numberToString (status updateResponse)))
                             else Inr \<lparr>content = [''Cap nhat thanh cong!'' @ nl @
                                     ''- Sheet: '' @ range_part actualRange 0 @ nl @
                                     ''- Range: '' @ range_part actualRange 1 @ nl @
                                     ''- So hang cap nhat: '' @ print_number (updatedRows updateResponse) @ nl @
                                     ''- So cot cap nhat: '' @ print_number (updatedColumns updateResponse) @ nl @
                                     ''- So o cap nhat: '' @ print_number (updatedCells updateResponse)],
                                   isError = False\<rparr>)))))"

definition edit_sheet_failure :: "error \<Rightarrow> ToolCallResult" where
  "edit_sheet_failure err =
     \<lparr>content = [''Khong the cap nhat sheet. Loi: '' @ message err @ nl @
         ''Vui long kiem tra:'' @ nl @
         ''1. URL hoac ID chinh xac'' @ nl @
         ''2. File la Google Spreadsheet'' @ nl @
         ''3. File da duoc chia se voi ban voi quyen chinh sua'' @ nl @
         ''4. Ten sheet va range chinh xac'' @ nl @
         ''5. Du lieu cap nhat theo dung dinh dang mang 2 chieu''],
      isError = True\<rparr>"

definition edit_sheet_tool :: "platform \<Rightarrow> google \<Rightarrow> arguments \<Rightarrow> error + ToolCallResult" where
  "edit_sheet_tool pf g args =
     (case edit_sheet_try pf g args of
        Inr result \<Rightarrow> Inr result
      | Inl err \<Rightarrow> Inr (edit_sheet_failure err))"

subsection \<open>format_sheet\<close>

text \<open>
  \<^verbatim>\<open>
  function hexToRgb(hex: string): { r: number, g: number, b: number } {
    const result = /^#?([a-f\d]{2})([a-f\d]{2})([a-f\d]{2})$/i.exec(hex);
    return result ? { r: parseInt(result[1], 16), g: parseInt(result[2], 16),
                      b: parseInt(result[3], 16) }
                  : { r: 0, g: 0, b: 0 };
  }
  \<close>
  The expression matches an optional \<open>#\<close> followed by exactly six hexadecimal digits of
  either case. The result is the triple \<open>(r, g, b)\<close>.
\<close>

definition hex_char :: "char \<Rightarrow> bool" where
  "hex_char c =
     (let n = (of_char c :: nat)
      in (48 \<le> n \<and> n \<le> 57) \<or> (97 \<le> n \<and> n \<le> 102) \<or> (65 \<le> n \<and> n \<le> 70))"

definition hex_value :: "char \<Rightarrow> nat" where
  "hex_value c =
     (let n = (of_char c :: nat)
      in if n \<le> 57 then n - 48 else if n \<le> 70 then n - 55 else n - 87)"

text \<open>\<^verbatim>\<open>parseInt(s, 16)\<close> on a string of hexadecimal digits.\<close>

definition parseHex :: "string \<Rightarrow> nat" where
  "parseHex s = foldl (\<lambda>n c. n * 16 + hex_value c) 0 s"

definition hex_match :: "string \<Rightarrow> string option" where
  "hex_match hex =
     (let digits = (case hex of [] \<Rightarrow> [] | c # cs \<Rightarrow> if c = CHR ''#'' then cs else c # cs)
      in if length digits = 6 \<and> list_all hex_char digits then Some digits else None)"

definition hexToRgb :: "string \<Rightarrow> nat \<times> nat \<times> nat" where
  "hexToRgb hex =
     (case hex_match hex of
        Some digits \<Rightarrow>
          (parseHex (take 2 digits), parseHex (take 2 (drop 2 digits)), parseHex (drop 4 digits))
      | None \<Rightarrow> (0, 0, 0))"

text \<open>
  Assignment to a property of an object: an existing key keeps its place, a new key goes
  last. \<open>spread_textFormat\<close> is \<^verbatim>\<open>{...userFormatting.textFormat}\<close>, empty while the key
  is absent.
\<close>

fun assign :: "string \<Rightarrow> fvalue \<Rightarrow> (string \<times> fvalue) list \<Rightarrow> (string \<times> fvalue) list" where
  "assign k v [] = [(k, v)]"
| "assign k v (p # ps) = (if fst p = k then (k, v) # ps else p # assign k v ps)"

definition spread_textFormat :: "(string \<times> fvalue) list \<Rightarrow> (string \<times> fvalue) list" where
  "spread_textFormat userFormatting =
     (case map_of userFormatting ''textFormat'' of
        Some (Obj properties) \<Rightarrow> properties
      | _ \<Rightarrow> [])"

definition color :: "nat \<times> nat \<times> nat \<Rightarrow> fvalue" where
  "color rgb =
     (case rgb of (r, g, b) \<Rightarrow>
        Obj [(''red'', Num (of_nat r / 255)), (''green'', Num (of_nat g / 255)),
             (''blue'', Num (of_nat b / 255)), (''alpha'', Num 1)])"

definition set_textFormat ::
  "string \<Rightarrow> fvalue \<Rightarrow> (string \<times> fvalue) list \<Rightarrow> (string \<times> fvalue) list" where
  "set_textFormat k v userFormatting =
     assign ''textFormat'' (Obj (assign k v (spread_textFormat userFormatting))) userFormatting"

text \<open>
  \<^verbatim>\<open>
  const userFormatting: any = {};
  if (formatting.backgroundColor) {
    const color = hexToRgb(formatting.backgroundColor);
    userFormatting.backgroundColor = { red: color.r / 255, green: color.g / 255,
                                       blue: color.b / 255, alpha: 1 };
  }
  if (formatting.textColor) {
    const color = hexToRgb(formatting.textColor);
    userFormatting.textFormat = { ...userFormatting.textFormat, foregroundColor: {...} };
  }
  if (formatting.fontSize) {
    userFormatting.textFormat = { ...userFormatting.textFormat, fontSize: formatting.fontSize };
  }
  if (formatting.bold !== undefined) {
    userFormatting.textFormat = { ...userFormatting.textFormat, bold: formatting.bold };
  }
  if (formatting.italic !== undefined) {
    userFormatting.textFormat = { ...userFormatting.textFormat, italic: formatting.italic };
  }
  if (formatting.horizontalAlignment) {
    userFormatting.horizontalAlignment = formatting.horizontalAlignment.toUpperCase();
  }
  if (formatting.verticalAlignment) {
    userFormatting.verticalAlignment = formatting.verticalAlignment.toUpperCase();
  }
  ... fields: 'userEnteredFormat(' + Object.keys(userFormatting).join(',') + ')'
  \<close>
  One function for each \<^verbatim>\<open>if\<close>, applied in the order of the source.
\<close>

definition put_backgroundColor :: "formatting \<Rightarrow> (string \<times> fvalue) list \<Rightarrow> (string \<times> fvalue) list" where
  "put_backgroundColor f u =
     (case backgroundColor f of
        None \<Rightarrow> u
      | Some hex \<Rightarrow> if hex = [] then u else assign ''backgroundColor'' (color (hexToRgb hex)) u)"

definition put_textColor :: "formatting \<Rightarrow> (string \<times> fvalue) list \<Rightarrow> (string \<times> fvalue) list" where
  "put_textColor f u =
     (case textColor f of
        None \<Rightarrow> u
      | Some hex \<Rightarrow> if hex = [] then u else set_textFormat ''foregroundColor'' (color (hexToRgb hex)) u)"

definition put_fontSize :: "formatting \<Rightarrow> (string \<times> fvalue) list \<Rightarrow> (string \<times> fvalue) list" where
  "put_fontSize f u =
     (case fontSize f of
        None \<Rightarrow> u
      | Some n \<Rightarrow> if n = 0 then u else set_textFormat ''fontSize'' (Num n) u)"

definition put_bold :: "formatting \<Rightarrow> (string \<times> fvalue) list \<Rightarrow> (string \<times> fvalue) list" where
  "put_bold f u = (case bold f of None \<Rightarrow> u | Some v \<Rightarrow> set_textFormat ''bold'' (Bool v) u)"

definition put_italic :: "formatting \<Rightarrow> (string \<times> fvalue) list \<Rightarrow> (string \<times> fvalue) list" where
  "put_italic f u = (case italic f of None \<Rightarrow> u | Some v \<Rightarrow> set_textFormat ''italic'' (Bool v) u)"

definition put_horizontalAlignment ::
  "platform \<Rightarrow> formatting \<Rightarrow> (string \<times> fvalue) list \<Rightarrow> (string \<times> fvalue) list" where
  "put_horizontalAlignment pf f u =
     (case horizontalAlignment f of
        None \<Rightarrow> u
      | Some a \<Rightarrow> if a = [] then u else assign ''horizontalAlignment'' (Str (toUpperCase pf a)) u)"

definition put_verticalAlignment ::
  "platform \<Rightarrow> formatting \<Rightarrow> (string \<times> fvalue) list \<Rightarrow> (string \<times> fvalue) list" where
  "put_verticalAlignment pf f u =
     (case verticalAlignment f of
        None \<Rightarrow> u
      | Some a \<Rightarrow> if a = [] then u else assign ''verticalAlignment'' (Str (toUpperCase pf a)) u)"

definition userFormatting :: "platform \<Rightarrow> formatting \<Rightarrow> (string \<times> fvalue) list" where
  "userFormatting pf f =
     put_verticalAlignment pf f (put_horizontalAlignment pf f (put_italic f (put_bold f
       (put_fontSize f (put_textColor f (put_backgroundColor f []))))))"

text \<open>\<^verbatim>\<open>Object.keys\<close> of the format object.\<close>

definition keys_of :: "(string \<times> fvalue) list \<Rightarrow> string list" where
  "keys_of obj = map fst obj"

definition fields_of :: "(string \<times> fvalue) list \<Rightarrow> string" where
  "fields_of obj = ''userEnteredFormat('' @ join '','' (keys_of obj) @ '')''"

text \<open>
  The names a field mask \<open>userEnteredFormat(a,b,...)\<close> lists, as its reader takes them:
  what stands between the parentheses, split at the commas; none when that is empty.
\<close>

definition mask_names :: "string \<Rightarrow> string list option" where
  "mask_names fieldMask =
     (if starts_with ''userEnteredFormat('' fieldMask \<and> fieldMask \<noteq> ''userEnteredFormat(''
         \<and> last fieldMask = CHR '')''
      then (let inner = butlast (drop (length ''userEnteredFormat('') fieldMask)
            in Some (if inner = [] then [] else split_on CHR '','' inner))
      else None)"

text \<open>
  \<^verbatim>\<open>
  const rangeParts = actualRange.split('!')[1].match(/([A-Z]+)(\d+):([A-Z]+)(\d+)/);
  if (rangeParts) {
    startCol = columnLetterToNumber(rangeParts[1]);  startRow = parseInt(rangeParts[2]) - 1;
    endCol = columnLetterToNumber(rangeParts[3]);    endRow = parseInt(rangeParts[4]) - 1;
  } else {
    const cellParts = actualRange.split('!')[1].match(/([A-Z]+)(\d+)/);
    if (!cellParts) { throw new Error('Dinh dang range khong hop le'); }
    startCol = columnLetterToNumber(cellParts[1]);   startRow = parseInt(cellParts[2]) - 1;
    endCol = startCol;  endRow = startRow;
  }
  \<close>
  At one position \<^verbatim>\<open>([A-Z]+)(\d+)\<close> matches the longest run of capitals and then the
  longest run of digits, both non-empty (giving up a letter or a digit never helps what
  follows); the search takes the leftmost position where the whole expression matches.
\<close>

definition upper_letter :: "char \<Rightarrow> bool" where
  "upper_letter c = (let n = (of_char c :: nat) in 65 \<le> n \<and> n \<le> 90)"

definition match_cell :: "string \<Rightarrow> (string \<times> string \<times> string) option" where
  "match_cell s =
     (let letters = takeWhile upper_letter s;
          after_letters = dropWhile upper_letter s;
          digits = takeWhile ascii_digit after_letters;
          rest = dropWhile ascii_digit after_letters
      in if letters = [] \<or> digits = [] then None else Some (letters, digits, rest))"

definition match_range :: "string \<Rightarrow> (string \<times> string \<times> string \<times> string) option" where
  "match_range s =
     (case match_cell s of
        None \<Rightarrow> None
      | Some (l1, d1, rest) \<Rightarrow>
         (case rest of
            [] \<Rightarrow> None
          | c # cs \<Rightarrow>
              if c = CHR '':'' then
                (case match_cell cs of
                   None \<Rightarrow> None
                 | Some (l2, d2, rest2) \<Rightarrow> Some (l1, d1, l2, d2))
              else None))"

fun search_range :: "string \<Rightarrow> (string \<times> string \<times> string \<times> string) option" where
  "search_range [] = None"
| "search_range (c # cs) =
     (case match_range (c # cs) of Some m \<Rightarrow> Some m | None \<Rightarrow> search_range cs)"

fun search_cell :: "string \<Rightarrow> (string \<times> string \<times> string) option" where
  "search_cell [] = None"
| "search_cell (c # cs) =
     (case match_cell (c # cs) of Some m \<Rightarrow> Some m | None \<Rightarrow> search_cell cs)"

text \<open>
  \<^verbatim>\<open>parseInt\<close> on a string of decimal digits: the number nearest to the decimal value.
\<close>

definition parseInt :: "string \<Rightarrow> number" where
  "parseInt s = number_of (foldl (\<lambda>n c. n * 10 + (int (of_char c) - 48)) 0 s)"

text \<open>The grid of the request: \<open>(startCol, startRow, endCol, endRow)\<close>.\<close>

definition gridRange :: "string \<Rightarrow> error + (number \<times> number \<times> number \<times> number)" where
  "gridRange actualRange =
     (case split_on CHR ''!'' actualRange of
        sheetPart # cells # others \<Rightarrow>
         (case search_range cells of
            Some (l1, d1, l2, d2) \<Rightarrow>
              Inr (columnLetterToNumber (js l1), number_plus (parseInt d1) (- 1),
                   columnLetterToNumber (js l2), number_plus (parseInt d2) (- 1))
          | None \<Rightarrow>
             (case search_cell cells of
                None \<Rightarrow> Inl (Error None ''Dinh dang range khong hop le'')
              | Some (l, d, rest) \<Rightarrow>
                  Inr (columnLetterToNumber (js l), number_plus (parseInt d) (- 1),
                       columnLetterToNumber (js l), number_plus (parseInt d) (- 1))))
      | _ \<Rightarrow> Inl (TypeError ''match''))"

text \<open>
  \<^verbatim>\<open>
  try {
    const fileId = extractFileIdFromUrl(inputId);
    const userEmail = await getCurrentUserEmail();
    try { await verifyFileAccess(fileId, true); }
    catch (err) { return { ...access failure..., isError: true }; }
    if (!formatting || typeof formatting !== 'object') { throw new Error('Dinh dang cung cap khong hop le.'); }
    ... actualRange ...
    const spreadsheet = await sheets.spreadsheets.get({ spreadsheetId: fileId,
      ranges: [actualRange], fields: 'sheets.properties,sheets.merges' });
    const sheetId = spreadsheet.data.sheets?.[0].properties?.sheetId;
    if (!sheetId) { throw new Error('Khong the xac dinh sheet ID'); }
    ... grid, userFormatting ...
    const updateResponse = await sheets.spreadsheets.batchUpdate({ spreadsheetId: fileId,
      requestBody: { requests: [{ repeatCell: {...} }] } });
    if (updateResponse.status !== 200) { throw new Error(`Cap nhat dinh dang that bai. ...`); }
    return { content: [{ type: "text", text: `Cap nhat dinh dang thanh cong!\n` + ... }], isError: false };
  } catch (err) { return { ...format failure..., isError: true }; }
  \<close>
\<close>

definition first_sheetId :: "sheet list option \<Rightarrow> error + nat option" where
  "first_sheetId sheets =
     (case sheets of
        None \<Rightarrow> Inr None
      | Some [] \<Rightarrow> Inl (TypeError ''properties'')
      | Some (s # ss) \<Rightarrow> Inr (sheetId s))"

definition format_request ::
  "platform \<Rightarrow> nat \<Rightarrow> number \<times> number \<times> number \<times> number \<Rightarrow> formatting \<Rightarrow> repeatCell" where
  "format_request pf sid grid f =
     (case grid of (startCol, startRow, endCol, endRow) \<Rightarrow>
        \<lparr>range_sheetId = sid,
         startRowIndex = startRow, endRowIndex = number_plus endRow 1,
         startColumnIndex = startCol, endColumnIndex = number_plus endCol 1,
         userEnteredFormat = userFormatting pf f,
         fields_mask = fields_of (userFormatting pf f)\<rparr>)"

definition format_sheet_try :: "platform \<Rightarrow> google \<Rightarrow> arguments \<Rightarrow> error + ToolCallResult" where
  "format_sheet_try pf g args =
     (case extractFileIdFromUrl pf (arg_fileId args) of
        Inl err \<Rightarrow> Inl err
      | Inr fileId \<Rightarrow>
         (let userEmail = getCurrentUserEmail g
          in case verifyFileAccess g fileId True of
               Inl err \<Rightarrow> Inr (access_failure err userEmail fileId)
             | Inr ok \<Rightarrow>
                (case arg_formatting args of
                   None \<Rightarrow> Inl (Error None ''Dinh dang cung cap khong hop le.'')
                 | Some f \<Rightarrow>
                    (case qualifiedRange (arg_sheetName args) (arg_range args) of
                       Inl err \<Rightarrow> Inl err
                     | Inr actualRange \<Rightarrow>
                        (case spreadsheets_get_ranges g fileId actualRange of
                           Inl err \<Rightarrow> Inl err
                         | Inr sheets \<Rightarrow>
                            (case first_sheetId sheets of
                               Inl err \<Rightarrow> Inl err
                             | Inr None \<Rightarrow> Inl (Error None ''Khong the xac dinh sheet ID'')
                             | Inr (Some sid) \<Rightarrow>
                                 if sid = 0 then Inl (Error None ''Khong the xac dinh sheet ID'')
                                 else (case gridRange actualRange of
                                    Inl err \<Rightarrow> Inl err
                                  | Inr grid \<Rightarrow>
                                     (case batchUpdate g fileId (format_request pf sid grid f) of
                                        Inl err \<Rightarrow> Inl err
                                      | Inr update_status \<Rightarrow>
                                          if update_status \<noteq> 200
                                          then Inl (Error None (''Cap nhat dinh dang that bai. Ma trang thai: ''
                                                  @ numberToString update_status))
                                          else Inr \<lparr>content = [''Cap nhat dinh dang thanh cong!'' @ nl @
                                                  ''- Sheet: '' @ range_part actualRange 0 @ nl @
                                                  ''- Range: '' @ range_part actualRange 1 @ nl @
                                                  ''- Cac thuoc tinh da ap dung: '' @ join '', '' (own_keys f)],
                                                isError = False\<rparr>))))))))"

definition format_sheet_failure :: "error \<Rightarrow> ToolCallResult" where
  "format_sheet_failure err =
     \<lparr>content = [''Khong the cap nhat dinh dang. Loi: '' @ message err @ nl @
         ''Vui long kiem tra:'' @ nl @
         ''1. URL hoac ID chinh xac'' @ nl @
         ''2. File la Google Spreadsheet'' @ nl @
         ''3. File da duoc chia se voi ban voi quyen chinh sua'' @ nl @
         ''4. Ten sheet va range chinh xac'' @ nl @
         ''5. Dinh dang cung cap hop le''],
      isError = True\<rparr>"

definition format_sheet_tool :: "platform \<Rightarrow> google \<Rightarrow> arguments \<Rightarrow> error + ToolCallResult" where
  "format_sheet_tool pf g args =
     (case format_sheet_try pf g args of
        Inr result \<Rightarrow> Inr result
      | Inl err \<Rightarrow> Inr (format_sheet_failure err))"

subsection \<open>The CallTool handler\<close>

text \<open>
  \<^verbatim>\<open>
  server.setRequestHandler(CallToolRequestSchema, async (request) => {
    if (request.params.name === "search") { ... }
    if (request.params.name === "list_sheets") { try { ... } catch (err) { ... } }
    if (request.params.name === "read_sheet") { try { ... } catch (err) { ... } }
    if (request.params.name === "edit_sheet") { try { ... } catch (err) { ... } }
    if (request.params.name === "format_sheet") { try { ... } catch (err) { ... } }
    throw new Error("Tool not found");
  });
  \<close>
\<close>

definition gdrive_call_tool ::
  "platform \<Rightarrow> google \<Rightarrow> string \<Rightarrow> arguments \<Rightarrow> error + ToolCallResult" where
  "gdrive_call_tool pf g name args =
     (if name = ''search'' then search_tool g args
      else if name = ''list_sheets'' then list_sheets_tool pf g args
      else if name = ''read_sheet'' then read_sheet_tool pf g args
      else if name = ''edit_sheet'' then edit_sheet_tool pf g args
      else if name = ''format_sheet'' then format_sheet_tool pf g args
      else Inl (Error None ''Tool not found''))"

text \<open>The names for which the handler wraps its work in \<^verbatim>\<open>try\<close>/\<^verbatim>\<open>catch\<close>, and that work.\<close>

definition guarded_tools :: "string list" where
  "guarded_tools = [''list_sheets'', ''read_sheet'', ''edit_sheet'', ''format_sheet'']"

definition guarded_try ::
  "platform \<Rightarrow> google \<Rightarrow> string \<Rightarrow> arguments \<Rightarrow> error + ToolCallResult" where
  "guarded_try pf g name args =
     (if name = ''list_sheets'' then list_sheets_try pf g args
      else if name = ''read_sheet'' then read_sheet_try pf g args
      else if name = ''edit_sheet'' then edit_sheet_try pf g args
      else format_sheet_try pf g args)"

section \<open>Notions of the specification and sample data\<close>

text \<open>
  The one-pass escaping that the specification describes for the search filter, and the
  reader of a quoted literal of the Drive query language: a backslash makes the next
  character literal, a bare quote ends the literal. \<open>read_literal\<close> returns the text of the
  literal and what follows its closing quote.
\<close>

definition escape_char :: "char \<Rightarrow> string" where
  "escape_char c =
     (if c = backslash then [backslash, backslash]
      else if c = quote then [backslash, quote] else [c])"

fun read_literal :: "string \<Rightarrow> (string \<times> string) option" where
  "read_literal [] = None"
| "read_literal (c # cs) =
     (if c = quote then Some ([], cs)
      else if c = backslash then
        (case cs of
           [] \<Rightarrow> None
         | d # ds \<Rightarrow> map_option (\<lambda>(s, r). (d # s, r)) (read_literal ds))
      else map_option (\<lambda>(s, r). (c # s, r)) (read_literal cs))"

text \<open>
  The top-level keys that a formatting asks for: each attribute under the key of the
  format object it belongs to, the four text attributes under \<open>textFormat\<close>.
\<close>

definition wants_textFormat :: "formatting \<Rightarrow> bool" where
  "wants_textFormat f =
     (truthy (textColor f) \<or> (fontSize f \<noteq> None \<and> fontSize f \<noteq> Some 0)
      \<or> bold f \<noteq> None \<or> italic f \<noteq> None)"

definition expected_keys :: "formatting \<Rightarrow> string list" where
  "expected_keys f =
     (if truthy (backgroundColor f) then [''backgroundColor''] else [])
     @ (if wants_textFormat f then [''textFormat''] else [])
     @ (if truthy (horizontalAlignment f) then [''horizontalAlignment''] else [])
     @ (if truthy (verticalAlignment f) then [''verticalAlignment''] else [])"

text \<open>The formatting \<^verbatim>\<open>{bold: true, backgroundColor: "#ff0000"}\<close>.\<close>

definition red_bold :: formatting where
  "red_bold = \<lparr>backgroundColor = Some ''#ff0000'', textColor = None, fontSize = None,
     bold = Some True, italic = None, horizontalAlignment = None, verticalAlignment = None,
     own_keys = [''bold'', ''backgroundColor'']\<rparr>"

text \<open>
  A backend for the examples: every file is shared with anyone and carries no read
  capability; \<open>doc\<close> is a PDF, every other file a spreadsheet with one sheet \<open>Data\<close> of 10
  rows and 3 columns, editable only when it is \<open>mine\<close>; the file search is down.
\<close>

definition sample_sheet :: sheet where
  "sample_sheet = \<lparr>title = Some ''Data'', sheetId = Some 7, rowCount = Some 10, columnCount = Some 3\<rparr>"

definition sample_google :: google where
  "sample_google =
     \<lparr>about_get = Inr (Some ''user@example.com''),
      files_get = (\<lambda>fileId.
         if fileId = ''doc''
         then Inr \<lparr>mimeType = Some ''application/pdf'', canReadRevisions = Some False,
                   canEdit = Some False\<rparr>
         else Inr \<lparr>mimeType = Some ''application/vnd.google-apps.spreadsheet'',
                   canReadRevisions = Some False, canEdit = Some (fileId = ''mine'')\<rparr>),
      permissions_list = (\<lambda>fileId. Inr (Some [\<lparr>perm_type = Some ''anyone''\<rparr>])),
      files_list = (\<lambda>q. Inl (Error (Some 500) ''Internal Error'')),
      spreadsheets_get = (\<lambda>fileId. Inr (Some [sample_sheet])),
      spreadsheets_get_ranges = (\<lambda>fileId ranges. Inr (Some [sample_sheet])),
      values_get = (\<lambda>fileId ranges. Inr (Some [[''a'', ''b'']])),
      values_update = (\<lambda>fileId ranges vals.
         Inr \<lparr>status = 200, updatedRows = Some 1, updatedColumns = Some 1, updatedCells = Some 1\<rparr>),
      batchUpdate = (\<lambda>fileId request. Inr 200)\<rparr>"

definition sample_platform :: platform where
  "sample_platform =
     \<lparr>url_parse = (\<lambda>input. None), toUpperCase = (\<lambda>s. s), stringify_sheets = (\<lambda>sheets. ''[]'')\<rparr>"

definition no_arguments :: arguments where
  "no_arguments =
     \<lparr>arg_query = None, arg_fileId = None, arg_sheetName = None, arg_range = None,
      arg_values = None, arg_formatting = None\<rparr>"

text \<open>The same backend when the listing of permissions is refused.\<close>

definition sample_google_forbidden :: google where
  "sample_google_forbidden =
     sample_google\<lparr>permissions_list := (\<lambda>fileId. Inl (Error (Some 403) ''Forbidden''))\<rparr>"

text \<open>
  A database on which the query fails and the rollback fails too: the handler throws the
  query's error, one warning is logged, and the connection is released once.
\<close>

definition failing_db :: "unit database" where
  "failing_db = \<lparr>getConnection = None, beginTransaction = None,
     query = (\<lambda>_. Inl (Error (Some 1064) ''syntax error'')),
     stringify = (\<lambda>_. Inr ''[]''),
     rollback = Some (Error None ''connection lost'')\<rparr>"

text \<open>Whether a tool verifies access with \<^verbatim>\<open>requireEdit\<close>.\<close>

definition requires_edit :: "string \<Rightarrow> bool" where
  "requires_edit name = (name = ''edit_sheet'' \<or> name = ''format_sheet'')"

text \<open>A call of \<^verbatim>\<open>format_sheet\<close> on the editable spreadsheet with the background \<open>red\<close>.\<close>

definition paint_request :: arguments where
  "paint_request = no_arguments\<lparr>arg_fileId := Some ''mine'', arg_range := Some ''A1:B2'',
     arg_formatting := Some (red_bold\<lparr>backgroundColor := Some ''red''\<rparr>)\<rparr>"

section \<open>Column letters: proofs\<close>

lemma letter_digit_code:
  assumes "c \<in> set alphabet"
  shows "letter_digit c = int (of_char c) - 64"
proof -
  from assms have "c \<in> set ''ABCDEFGHIJKLMNOPQRSTUVWXYZ''"
    by (simp only: alphabet_def)
  then show ?thesis
    unfolding letter_digit_def alphabet_def by auto
qed

lemma letter_digit_range:
  assumes "c \<in> set alphabet"
  shows "1 \<le> letter_digit c" and "letter_digit c \<le> 26"
proof -
  show "1 \<le> letter_digit c" by (simp add: letter_digit_def)
  from assms have "c \<in> set ''ABCDEFGHIJKLMNOPQRSTUVWXYZ''" by (simp only: alphabet_def)
  then show "letter_digit c \<le> 26"
    unfolding letter_digit_def alphabet_def by auto
qed

lemma columnLoop_append:
  "columnLoop r (xs @ ys) = columnLoop (columnLoop r xs) ys"
  by (induction xs arbitrary: r) simp_all

lemma positional26_snoc:
  "positional26 (s @ [c]) = positional26 s * 26 + letter_digit c"
proof -
  have "positional26 (s @ [c]) =
      (\<Sum>i<length s. letter_digit ((s @ [c]) ! i) * 26 ^ (length s - i)) + letter_digit c"
    by (simp add: positional26_def)
  also have "(\<Sum>i<length s. letter_digit ((s @ [c]) ! i) * 26 ^ (length s - i)) =
      (\<Sum>i<length s. (letter_digit (s ! i) * 26 ^ (length s - 1 - i)) * 26)"
  proof (rule sum.cong)
    fix i assume "i \<in> {..<length s}"
    then have i: "i < length s" by simp
    then have "length s - i = Suc (length s - 1 - i)" by arith
    with i show "letter_digit ((s @ [c]) ! i) * 26 ^ (length s - i) =
        (letter_digit (s ! i) * 26 ^ (length s - 1 - i)) * 26"
      by (simp add: nth_append)
  qed simp
  also have "\<dots> = positional26 s * 26"
    by (simp add: positional26_def sum_distrib_right)
  finally show ?thesis .
qed

lemma positional26_foldl:
  "positional26 s = foldl (\<lambda>r c. r * 26 + letter_digit c) 0 s"
  by (induction s rule: rev_induct) (simp_all add: positional26_snoc, simp add: positional26_def)

text \<open>
  The number that a string of \<open>n\<close> uppercase letters stands for is at most
  \<open>(26^(n+1) - 26) / 25\<close>; up to 11 letters it is below \<open>2^53\<close>.
\<close>

lemma positional26_bound:
  "uppercase s \<Longrightarrow> 0 \<le> positional26 s \<and> 25 * positional26 s + 26 \<le> 26 * 26 ^ length s"
proof (induction s rule: rev_induct)
  case Nil
  show ?case by (simp add: positional26_def)
next
  case (snoc c s)
  then have up: "uppercase s" and c: "c \<in> set alphabet"
    by (simp_all add: uppercase_def)
  from snoc.IH [OF up]
  have ih: "0 \<le> positional26 s" "25 * positional26 s + 26 \<le> 26 * 26 ^ length s"
    by simp_all
  note digit = letter_digit_range [OF c]
  from ih(1) digit(1) have lo: "0 \<le> positional26 s * 26 + letter_digit c" by simp
  from digit(2) have "25 * (positional26 s * 26 + letter_digit c) + 26
      \<le> (25 * positional26 s + 26) * 26"
    by simp
  also from ih(2) have "(25 * positional26 s + 26) * 26 \<le> (26 * 26 ^ length s) * 26"
    by (rule mult_right_mono) simp
  also have "(26 * 26 ^ length s) * 26 = (26::int) * 26 ^ length (s @ [c])"
    by simp
  finally have "25 * (positional26 s * 26 + letter_digit c) + 26 \<le> 26 * 26 ^ length (s @ [c])" .
  with lo show ?case by (simp only: positional26_snoc simp_thms)
qed

lemma positional26_exact:
  assumes "uppercase s" and "length s \<le> 11"
  shows "0 \<le> positional26 s" and "positional26 s < 2 ^ 53"
proof -
  from positional26_bound [OF assms(1)]
  have lo: "0 \<le> positional26 s" and hi: "25 * positional26 s + 26 \<le> 26 * 26 ^ length s"
    by simp_all
  show "0 \<le> positional26 s" by (rule lo)
  have "(26::int) ^ length s \<le> 26 ^ 11"
    using assms(2) by (intro power_increasing) simp_all
  with hi have "25 * positional26 s + 26 \<le> 26 * 26 ^ 11" by linarith
  then show "positional26 s < 2 ^ 53" by simp
qed

text \<open>An integer of magnitude below \<open>2^53\<close> is a double: no rounding.\<close>

lemma bit_length_less: "n < 2 ^ k \<Longrightarrow> bit_length n \<le> k"
proof (induction k arbitrary: n)
  case 0
  then show ?case by (simp add: bit_length.simps)
next
  case (Suc k)
  then have "n div 2 < 2 ^ k" by simp
  then have "bit_length (n div 2) \<le> k" by (rule Suc.IH)
  then show ?case by (subst bit_length.simps) simp
qed

lemma number_of_exact:
  assumes "\<bar>x\<bar> < 2 ^ 53"
  shows "number_of x = Finite x"
proof -
  from assms have "nat \<bar>x\<bar> < 2 ^ 53" by simp
  then have small: "bit_length (nat \<bar>x\<bar>) \<le> 53" by (rule bit_length_less)
  then have r: "round_to_double (nat \<bar>x\<bar>) = nat \<bar>x\<bar>"
    by (simp add: round_to_double_def)
  from small have "\<not> 1024 < bit_length (nat \<bar>x\<bar>)" by simp
  with r show ?thesis by (simp add: number_of_def Let_def)
qed

text \<open>
  Up to 11 letters every value of \<open>result\<close> in the loop is a natural number below \<open>2^53\<close>,
  so that the loop computes the positional number exactly.
\<close>

lemma columnLoop_positional26:
  "uppercase s \<Longrightarrow> length s \<le> 11 \<Longrightarrow> columnLoop (Finite 0) (js s) = Finite (positional26 s)"
proof (induction s rule: rev_induct)
  case Nil
  show ?case by (simp add: js_def positional26_def)
next
  case (snoc c s)
  then have up: "uppercase s" and c: "c \<in> set alphabet" and len: "length s \<le> 11"
    by (simp_all add: uppercase_def)
  from snoc.IH [OF up len] have ih: "columnLoop (Finite 0) (js s) = Finite (positional26 s)" .
  note digit = letter_digit_range [OF c]
  from positional26_exact [OF snoc.prems]
  have whole: "0 \<le> positional26 s * 26 + letter_digit c"
      "positional26 s * 26 + letter_digit c < 2 ^ 53"
    by (simp_all add: positional26_snoc)
  from positional26_exact(1) [OF up len] have p: "0 \<le> positional26 s" .
  with whole(2) digit(1) have "\<bar>positional26 s * 26\<bar> < 2 ^ 53" by simp
  then have product: "number_of (positional26 s * 26) = Finite (positional26 s * 26)"
    by (rule number_of_exact)
  from whole have "\<bar>positional26 s * 26 + letter_digit c\<bar> < 2 ^ 53" by simp
  then have total: "number_of (positional26 s * 26 + letter_digit c)
      = Finite (positional26 s * 26 + letter_digit c)"
    by (rule number_of_exact)
  have "columnLoop (Finite 0) (js (s @ [c]))
      = number_plus (times26 (columnLoop (Finite 0) (js s))) (int (of_char c) - 64)"
    by (simp add: js_def columnLoop_append)
  also have "\<dots> = number_plus (times26 (Finite (positional26 s))) (letter_digit c)"
    by (simp only: ih letter_digit_code [OF c])
  also have "\<dots> = Finite (positional26 s * 26 + letter_digit c)"
    by (simp add: times26_def number_plus_def product total)
  finally show ?case by (simp only: positional26_snoc)
qed

lemma columnLetterToNumber_exact:
  assumes "uppercase s" and "length s \<le> 11"
  shows "columnLetterToNumber (js s) = Finite (letterToIndex_spec s)"
proof -
  from positional26_exact [OF assms] have "\<bar>positional26 s - 1\<bar> < 2 ^ 53" by simp
  then have "number_of (positional26 s - 1) = Finite (positional26 s - 1)"
    by (rule number_of_exact)
  then show ?thesis
    by (simp add: columnLetterToNumber_def columnLoop_positional26 [OF assms] number_plus_def
        letterToIndex_spec_def)
qed

text \<open>
  C4 (as amended). For every non-empty string of at most 11 uppercase letters,
  \<open>columnLetterToNumber\<close> returns the 0-based column index, the string read as a base-26
  number without a zero digit, minus one; in particular \<open>A\<close> gives 0, \<open>Z\<close> 25, \<open>AA\<close> 26 and
  \<open>AZ\<close> 51.
\<close>

theorem columnLetterToNumber_base26:
  "(s \<noteq> [] \<and> uppercase s \<and> length s \<le> 11
      \<longrightarrow> columnLetterToNumber (js s) = Finite (letterToIndex_spec s))
   \<and> columnLetterToNumber (js ''A'') = Finite 0
   \<and> columnLetterToNumber (js ''Z'') = Finite 25
   \<and> columnLetterToNumber (js ''AA'') = Finite 26
   \<and> columnLetterToNumber (js ''AZ'') = Finite 51"
proof -
  have general: "s \<noteq> [] \<and> uppercase s \<and> length s \<le> 11
      \<longrightarrow> columnLetterToNumber (js s) = Finite (letterToIndex_spec s)"
    by (simp add: columnLetterToNumber_exact)
  have concrete: "columnLetterToNumber (js ''A'') = Finite 0"
    "columnLetterToNumber (js ''Z'') = Finite 25"
    "columnLetterToNumber (js ''AA'') = Finite 26"
    "columnLetterToNumber (js ''AZ'') = Finite 51"
    by (simp_all add: columnLetterToNumber_def js_def times26_def number_plus_def number_of_exact)
  from general concrete show ?thesis by blast
qed

theorem columnLetterToNumber_base26_witness:
  "''ZZ'' \<noteq> [] \<and> uppercase ''ZZ'' \<and> length ''ZZ'' \<le> 11
   \<and> columnLetterToNumber (js ''ZZ'') = Finite 701
   \<and> letterToIndex_spec ''ZZ'' = 701"
  using columnLetterToNumber_base26 [of "''ZZ''"]
  by (simp add: uppercase_def alphabet_def letterToIndex_spec_def positional26_foldl
      letter_digit_def)

text \<open>
  As stated, for every non-empty string of uppercase letters, the claim fails from 12
  letters on, where \<open>result\<close> passes \<open>2^53\<close> and the arithmetic of doubles rounds: the
  column of twelve \<open>Z\<close> has the index 99246114928149461, and the function returns
  99246114928149472.
\<close>

theorem columnLetterToNumber_base26_counterexample:
  "''ZZZZZZZZZZZZ'' \<noteq> [] \<and> uppercase ''ZZZZZZZZZZZZ''
   \<and> letterToIndex_spec ''ZZZZZZZZZZZZ'' = 99246114928149461
   \<and> columnLetterToNumber (js ''ZZZZZZZZZZZZ'') = Finite 99246114928149472
   \<and> columnLetterToNumber (js ''ZZZZZZZZZZZZ'') \<noteq> Finite (letterToIndex_spec ''ZZZZZZZZZZZZ'')"
proof -
  have spec: "letterToIndex_spec ''ZZZZZZZZZZZZ'' = 99246114928149461"
    by (simp add: letterToIndex_spec_def positional26_foldl letter_digit_def alphabet_def)
  have code: "columnLetterToNumber (js ''ZZZZZZZZZZZZ'') = Finite 99246114928149472"
    by (simp add: columnLetterToNumber_def js_def times26_def number_plus_def number_of_def
        round_to_double_def Let_def bit_length.simps)
  have up: "uppercase ''ZZZZZZZZZZZZ''"
    by (simp add: uppercase_def alphabet_def)
  from spec code up show ?thesis by simp
qed

section \<open>The query tool: proofs\<close>

lemma query_try_calls:
  "Rollback \<notin> set (snd (query_try db sql)) \<and> Release \<notin> set (snd (query_try db sql))
   \<and> (\<forall>e. Warn e \<notin> set (snd (query_try db sql)))"
  by (simp add: query_try_def split: option.split sum.split)

lemma query_try_rollback_irrelevant:
  "query_try (db\<lparr>rollback := r\<rparr>) sql = query_try db sql"
  by (simp add: query_try_def split: option.split sum.split)

lemma count_list_append:
  "count_list (xs @ ys) a = count_list xs a + count_list ys a"
  by (induction xs) simp_all

lemma count_list_absent: "a \<notin> set xs \<Longrightarrow> count_list xs a = 0"
  by (induction xs) auto

lemma before_append:
  "a \<notin> set xs \<Longrightarrow> b \<notin> set xs \<Longrightarrow> before a b (xs @ ys) = before a b ys"
  by (induction xs) auto

text \<open>
  C1. Whenever the query tool has acquired its connection, then after the handler returns
  or throws, the connection has been released exactly once and a rollback has been
  attempted exactly once, before the release; what the handler returns or throws is what
  the guarded block returned or threw, whatever the rollback did; and a rollback that
  fails is reported by one warning carrying its error.
\<close>

theorem query_tool_rollback_release:
  assumes "getConnection db = None"
  shows "count_list (snd (mysql_call_tool db ''query'' sql)) Release = 1
    \<and> count_list (snd (mysql_call_tool db ''query'' sql)) Rollback = 1
    \<and> before Rollback Release (snd (mysql_call_tool db ''query'' sql))
    \<and> fst (mysql_call_tool db ''query'' sql) = fst (query_try db sql)
    \<and> fst (mysql_call_tool (db\<lparr>rollback := r\<rparr>) ''query'' sql) = fst (mysql_call_tool db ''query'' sql)
    \<and> (case rollback db of
          None \<Rightarrow> (\<forall>e. Warn e \<notin> set (snd (mysql_call_tool db ''query'' sql)))
        | Some e \<Rightarrow> count_list (snd (mysql_call_tool db ''query'' sql)) (Warn e) = 1
            \<and> (\<forall>e'. Warn e' \<in> set (snd (mysql_call_tool db ''query'' sql)) \<longrightarrow> e' = e))"
proof -
  obtain completion calls where body: "query_try db sql = (completion, calls)"
    by (cases "query_try db sql")
  from query_try_calls [of db sql] body
  have clean: "Rollback \<notin> set calls" "Release \<notin> set calls" "\<And>e. Warn e \<notin> set calls"
    by simp_all
  have run: "mysql_call_tool db ''query'' sql
      = (completion, [GetConnection] @ calls @ query_finally db)"
    by (simp add: mysql_call_tool_def query_tool_def assms body)
  have run': "mysql_call_tool (db\<lparr>rollback := r\<rparr>) ''query'' sql
      = (completion, [GetConnection] @ calls @ query_finally (db\<lparr>rollback := r\<rparr>))"
    by (simp add: mysql_call_tool_def query_tool_def assms query_try_rollback_irrelevant body)
  have released: "count_list ([GetConnection] @ calls @ query_finally db) Release = 1"
    using clean by (simp add: count_list_append count_list_absent query_finally_def split: option.split)
  have rolled: "count_list ([GetConnection] @ calls @ query_finally db) Rollback = 1"
    using clean by (simp add: count_list_append count_list_absent query_finally_def split: option.split)
  have "before Rollback Release (calls @ query_finally db)"
    using clean by (simp add: before_append query_finally_def split: option.split)
  then have order: "before Rollback Release ([GetConnection] @ calls @ query_finally db)"
    by simp
  have warned: "case rollback db of
          None \<Rightarrow> (\<forall>e. Warn e \<notin> set ([GetConnection] @ calls @ query_finally db))
        | Some e \<Rightarrow> count_list ([GetConnection] @ calls @ query_finally db) (Warn e) = 1
            \<and> (\<forall>e'. Warn e' \<in> set ([GetConnection] @ calls @ query_finally db) \<longrightarrow> e' = e)"
    using clean by (simp add: count_list_append count_list_absent query_finally_def split: option.split)
  from released rolled order warned show ?thesis
    by (simp only: run run' body fst_conv snd_conv simp_thms)
qed

theorem query_tool_rollback_release_witness:
  "getConnection failing_db = None
   \<and> mysql_call_tool failing_db ''query'' (Some ''SELEC'')
     = (Inl (Error (Some 1064) ''syntax error''),
        [GetConnection, BeginTransaction, Query (Some ''SELEC''), Rollback,
         Warn (Error None ''connection lost''), Release])
   \<and> count_list (snd (mysql_call_tool failing_db ''query'' (Some ''SELEC''))) Release = 1
   \<and> count_list (snd (mysql_call_tool failing_db ''query'' (Some ''SELEC''))) Rollback = 1"
  using query_tool_rollback_release [of failing_db "Some ''SELEC''" None]
  by (simp add: failing_db_def mysql_call_tool_def query_tool_def query_try_def query_finally_def)

section \<open>Resource URIs: proofs\<close>

lemma split_from_no_sep: "sep \<notin> set t \<Longrightarrow> split_from sep cur t = [cur @ t]"
  by (induction t arbitrary: cur) auto

lemma split_from_last_sep:
  "sep \<notin> set ys \<Longrightarrow> split_from sep cur (xs @ sep # ys) = split_from sep cur xs @ [ys]"
  by (induction xs arbitrary: cur) (auto simp: split_from_no_sep)

lemma split_from_nonempty: "split_from sep cur s \<noteq> []"
  by (induction s arbitrary: cur) auto

lemma pathname_snoc: "pathname (p @ [a]) = pathname p @ slash # a"
  by (simp add: pathname_def)

lemma path_state_plain:
  "list_all (\<lambda>c. \<not> in_path_percent_encode_set c \<and> c \<noteq> slash) t \<Longrightarrow>
   path_state path buf (t @ rest) = path_state path (buf @ t) rest"
proof (induction t arbitrary: buf)
  case Nil
  show ?case by simp
next
  case (Cons c t)
  then have c: "\<not> in_path_percent_encode_set c" "c \<noteq> slash" and t: "list_all (\<lambda>c. \<not> in_path_percent_encode_set c \<and> c \<noteq> slash) t"
    by simp_all
  from c(1) have "c \<noteq> CHR ''?''" "c \<noteq> CHR ''#''"
    by (auto simp: in_path_percent_encode_set_def)
  with c Cons.IH [OF t] show ?case
    by (simp add: utf8_percent_encode_def)
qed

lemma schema_plain: "list_all (\<lambda>c. \<not> in_path_percent_encode_set c \<and> c \<noteq> slash) SCHEMA_PATH"
  by (simp add: SCHEMA_PATH_def in_path_percent_encode_set_def slash_def)

lemma schema_not_dots: "\<not> single_dot SCHEMA_PATH" "\<not> double_dot SCHEMA_PATH"
  by (simp_all add: SCHEMA_PATH_def single_dot_def double_dot_def)

lemma path_state_table:
  assumes "list_all (\<lambda>c. \<not> in_path_percent_encode_set c \<and> c \<noteq> slash) t"
    and "\<not> single_dot t" "\<not> double_dot t"
  shows "path_state path [] (t @ slash # SCHEMA_PATH) = path @ [t, SCHEMA_PATH]"
proof -
  have "path_state path [] (t @ slash # SCHEMA_PATH) = path_state path t (slash # SCHEMA_PATH)"
    using path_state_plain [OF assms(1), of path "[]"] by simp
  also have "\<dots> = path_state (path @ [t]) [] (SCHEMA_PATH @ [])"
    using assms(2,3) by (simp add: finish_segment_def)
  also have "\<dots> = path_state (path @ [t]) SCHEMA_PATH []"
    using path_state_plain [OF schema_plain, of "path @ [t]" "[]" "[]"] by simp
  also have "\<dots> = path @ [t, SCHEMA_PATH]"
    using schema_not_dots by (simp add: finish_segment_def)
  finally show ?thesis .
qed

lemma encode_set_covers_blanks:
  "\<not> in_path_percent_encode_set c \<Longrightarrow> \<not> c0_or_space c \<and> \<not> tab_or_newline c"
  unfolding in_path_percent_encode_set_def c0_or_space_def tab_or_newline_def Let_def
  by auto

lemma trim_input_plain:
  assumes "list_all (\<lambda>c. \<not> in_path_percent_encode_set c) t"
  shows "trim_input (t @ slash # SCHEMA_PATH) = t @ slash # SCHEMA_PATH"
proof -
  have t: "\<And>c. c \<in> set t \<Longrightarrow> \<not> c0_or_space c \<and> \<not> tab_or_newline c"
    using assms encode_set_covers_blanks by (simp add: list_all_iff)
  have rest: "\<And>c. c \<in> set (slash # SCHEMA_PATH) \<Longrightarrow> \<not> c0_or_space c \<and> \<not> tab_or_newline c"
    by (auto simp: SCHEMA_PATH_def slash_def c0_or_space_def tab_or_newline_def)
  have front: "dropWhile c0_or_space (t @ slash # SCHEMA_PATH) = t @ slash # SCHEMA_PATH"
    using t rest by (cases t) auto
  have rear: "dropWhile c0_or_space (rev (t @ slash # SCHEMA_PATH)) = rev (t @ slash # SCHEMA_PATH)"
    by (simp add: SCHEMA_PATH_def c0_or_space_def)
  have keep: "filter (\<lambda>c. \<not> tab_or_newline c) (t @ slash # SCHEMA_PATH) = t @ slash # SCHEMA_PATH"
    using t rest by (intro filter_True) auto
  show ?thesis
    unfolding trim_input_def front rear using keep by simp
qed

lemma no_colon_no_scheme:
  assumes "CHR '':'' \<notin> set s"
  shows "\<not> has_scheme s"
proof
  assume "has_scheme s"
  then obtain c cs d ds where "s = c # cs" "dropWhile scheme_char cs = d # ds" "d = CHR '':''"
    by (auto simp: has_scheme_def split: list.splits)
  then have "CHR '':'' \<in> set (dropWhile scheme_char cs)" by simp
  then have "CHR '':'' \<in> set cs" by (rule set_mp [OF set_dropWhileD [THEN subsetI], rotated]) 
  with \<open>s = c # cs\<close> assms show False by simp
qed


lemma decode_two_segments:
  assumes "slash \<notin> set t"
  shows "read_resource_decode (x @ slash # t @ slash # SCHEMA_PATH) = Inr (Some t, Some SCHEMA_PATH)"
proof -
  have schema: "slash \<notin> set SCHEMA_PATH"
    by (simp add: SCHEMA_PATH_def slash_def)
  have "split_on slash (x @ slash # t @ slash # SCHEMA_PATH)
      = split_from slash [] ((x @ slash # t) @ slash # SCHEMA_PATH)"
    by (simp add: split_on_def)
  also have "\<dots> = split_from slash [] (x @ slash # t) @ [SCHEMA_PATH]"
    by (rule split_from_last_sep [OF schema])
  also have "\<dots> = split_from slash [] x @ [t, SCHEMA_PATH]"
    by (simp add: split_from_last_sep [OF assms])
  finally have comps: "split_on slash (x @ slash # t @ slash # SCHEMA_PATH)
      = (split_from slash [] x @ [t]) @ [SCHEMA_PATH]"
    by simp
  show ?thesis
    unfolding read_resource_decode_def comps
    by (simp add: pop_def butlast_append)
qed

lemma resource_pathname_plain:
  assumes "plain_name t"
  shows "resource_pathname base_path t
    = Some (pathname (if t = [] then [] else butlast base_path @ [t]) @ slash # SCHEMA_PATH)"
proof -
  from assms have chars: "list_all (\<lambda>c. \<not> in_path_percent_encode_set c \<and> c \<noteq> slash) t"
    and enc: "list_all (\<lambda>c. \<not> in_path_percent_encode_set c) t"
    and colon: "CHR '':'' \<notin> set t"
    and dots: "\<not> single_dot t" "\<not> double_dot t"
    by (auto simp: plain_name_def list_all_iff)
  have input: "trim_input (t @ [slash] @ SCHEMA_PATH) = t @ slash # SCHEMA_PATH"
    using trim_input_plain [OF enc] by simp
  have "CHR '':'' \<notin> set (t @ slash # SCHEMA_PATH)"
    using colon by (simp add: SCHEMA_PATH_def slash_def)
  then have scheme: "\<not> has_scheme (t @ slash # SCHEMA_PATH)"
    by (rule no_colon_no_scheme)
  show ?thesis
  proof (cases t)
    case Nil
    have "resource_pathname base_path [] = Some (slash # SCHEMA_PATH)"
      by (simp add: resource_pathname_def url_resolve_def trim_input_def c0_or_space_def
          tab_or_newline_def has_scheme_def ascii_alpha_def slash_def SCHEMA_PATH_def
          utf8_percent_encode_def in_path_percent_encode_set_def finish_segment_def
          single_dot_def double_dot_def pathname_def)
    with Nil show ?thesis by (simp add: pathname_def)
  next
    case (Cons c cs)
    with chars have c: "c \<noteq> slash" "\<not> in_path_percent_encode_set c" by simp_all
    then have mark: "c \<noteq> CHR ''?''" "c \<noteq> CHR ''#''"
      by (auto simp: in_path_percent_encode_set_def)
    have shape: "t @ slash # SCHEMA_PATH = c # (cs @ slash # SCHEMA_PATH)"
      using Cons by simp
    have "url_resolve (t @ [slash] @ SCHEMA_PATH) base_path
        = Segments (path_state (butlast base_path) [] (t @ slash # SCHEMA_PATH))"
      unfolding url_resolve_def input Let_def
      using scheme c(1) mark by (simp add: shape)
    also have "\<dots> = Segments (butlast base_path @ [t, SCHEMA_PATH])"
      by (simp only: path_state_table [OF chars dots])
    finally show ?thesis
      using Cons by (simp add: resource_pathname_def pathname_def)
  qed
qed

lemma decode_guard:
  "read_resource_decode p = Inl (Error None ''Invalid resource URI'') \<longleftrightarrow> last (split_on slash p) \<noteq> SCHEMA_PATH"
  "isl (read_resource_decode p) \<longleftrightarrow> last (split_on slash p) \<noteq> SCHEMA_PATH"
  using split_from_nonempty [of slash "[]" p]
  by (auto simp: read_resource_decode_def pop_def split_on_def Let_def split: prod.splits if_splits)

text \<open>
  C3 (as amended). For every table name that the URL parser passes through unchanged,
  decoding the resource URI built from that name and the view \<open>schema\<close> recovers the name
  and the view; and decoding throws \<open>Invalid resource URI\<close> exactly when the last path
  segment is not \<open>schema\<close>, which is its only failure.
\<close>

theorem resource_uri_round_trip:
  "(plain_name t \<longrightarrow>
      map_option read_resource_decode (resource_pathname base_path t)
        = Some (Inr (Some t, Some SCHEMA_PATH)))
   \<and> (read_resource_decode p = Inl (Error None ''Invalid resource URI'')
        \<longleftrightarrow> last (split_on slash p) \<noteq> SCHEMA_PATH)
   \<and> (isl (read_resource_decode p) \<longleftrightarrow> last (split_on slash p) \<noteq> SCHEMA_PATH)"
proof -
  have "map_option read_resource_decode (resource_pathname base_path t)
        = Some (Inr (Some t, Some SCHEMA_PATH))" if plain: "plain_name t"
  proof -
    from plain have t: "slash \<notin> set t"
      by (auto simp: plain_name_def list_all_iff)
    show ?thesis
    proof (cases "t = []")
      case True
      have "read_resource_decode (slash # SCHEMA_PATH) = Inr (Some [], Some SCHEMA_PATH)"
        by (simp add: read_resource_decode_def split_on_def pop_def slash_def SCHEMA_PATH_def)
      with True resource_pathname_plain [OF plain, of base_path]
      show ?thesis by (simp add: pathname_def)
    next
      case False
      with decode_two_segments [OF t, of "pathname (butlast base_path)"]
        resource_pathname_plain [OF plain, of base_path]
      show ?thesis by (simp add: pathname_snoc)
    qed
  qed
  with decode_guard [of p] show ?thesis by blast
qed

theorem resource_uri_round_trip_witness:
  "plain_name ''catalog_product''
   \<and> resource_pathname [''magento''] ''catalog_product'' = Some ''/catalog_product/schema''
   \<and> read_resource_decode ''/catalog_product/schema'' = Inr (Some ''catalog_product'', Some ''schema'')
   \<and> read_resource_decode ''/catalog_product/columns'' = Inl (Error None ''Invalid resource URI'')"
proof -
  have plain: "plain_name ''catalog_product''"
    by (simp add: plain_name_def in_path_percent_encode_set_def slash_def single_dot_def double_dot_def)
  have bad: "last (split_on slash ''/catalog_product/columns'') \<noteq> SCHEMA_PATH"
    by (simp add: split_on_def slash_def SCHEMA_PATH_def)
  have path: "resource_pathname [''magento''] ''catalog_product'' = Some ''/catalog_product/schema''"
    by (simp add: resource_pathname_plain [OF plain] pathname_def slash_def SCHEMA_PATH_def)
  from resource_uri_round_trip [of "''catalog_product''" "[''magento'']" "''/catalog_product/columns''"]
    plain bad path
  show ?thesis by (simp add: SCHEMA_PATH_def)
qed

text \<open>
  As stated, for every table name, the round trip fails: a space in the name is
  percent-encoded by the encoder and the decoder does not decode it.
\<close>

theorem resource_uri_round_trip_counterexample:
  "resource_pathname [''magento''] ''order items'' = Some ''/order%20items/schema''
   \<and> read_resource_decode ''/order%20items/schema'' = Inr (Some ''order%20items'', Some ''schema'')
   \<and> ''order%20items'' \<noteq> ''order items''"
  by code_simp

section \<open>The format object and its field mask: proofs\<close>

lemma hexToRgb_red: "hexToRgb ''#ff0000'' = (255, 0, 0)"
  by (simp add: hexToRgb_def hex_match_def hex_char_def parseHex_def hex_value_def)

lemma keys_of_assign:
  "keys_of (assign k v u) = (if k \<in> set (keys_of u) then keys_of u else keys_of u @ [k])"
  by (induction u) (auto simp: keys_of_def)

lemma keys_of_set_textFormat:
  "keys_of (set_textFormat k v u)
    = (if ''textFormat'' \<in> set (keys_of u) then keys_of u else keys_of u @ [''textFormat''])"
  by (simp add: set_textFormat_def keys_of_assign)

lemma keys_background:
  "keys_of (put_backgroundColor f []) = (if truthy (backgroundColor f) then [''backgroundColor''] else [])"
  by (simp add: put_backgroundColor_def truthy_def keys_of_def split: option.split)

lemma keys_textColor:
  "keys_of (put_textColor f u)
    = (if truthy (textColor f) \<and> ''textFormat'' \<notin> set (keys_of u) then keys_of u @ [''textFormat''] else keys_of u)"
  by (simp add: put_textColor_def truthy_def keys_of_set_textFormat split: option.split)

lemma keys_fontSize:
  "keys_of (put_fontSize f u)
    = (if (fontSize f \<noteq> None \<and> fontSize f \<noteq> Some 0) \<and> ''textFormat'' \<notin> set (keys_of u)
       then keys_of u @ [''textFormat''] else keys_of u)"
  by (simp add: put_fontSize_def keys_of_set_textFormat split: option.split)

lemma keys_bold:
  "keys_of (put_bold f u)
    = (if bold f \<noteq> None \<and> ''textFormat'' \<notin> set (keys_of u) then keys_of u @ [''textFormat''] else keys_of u)"
  by (simp add: put_bold_def keys_of_set_textFormat split: option.split)

lemma keys_italic:
  "keys_of (put_italic f u)
    = (if italic f \<noteq> None \<and> ''textFormat'' \<notin> set (keys_of u) then keys_of u @ [''textFormat''] else keys_of u)"
  by (simp add: put_italic_def keys_of_set_textFormat split: option.split)

lemma keys_horizontal:
  "keys_of (put_horizontalAlignment pf f u)
    = (if truthy (horizontalAlignment f) \<and> ''horizontalAlignment'' \<notin> set (keys_of u)
       then keys_of u @ [''horizontalAlignment''] else keys_of u)"
  by (simp add: put_horizontalAlignment_def truthy_def keys_of_assign split: option.split)

lemma keys_vertical:
  "keys_of (put_verticalAlignment pf f u)
    = (if truthy (verticalAlignment f) \<and> ''verticalAlignment'' \<notin> set (keys_of u)
       then keys_of u @ [''verticalAlignment''] else keys_of u)"
  by (simp add: put_verticalAlignment_def truthy_def keys_of_assign split: option.split)

lemma keys_text_part:
  "keys_of (put_italic f (put_bold f (put_fontSize f (put_textColor f (put_backgroundColor f [])))))
    = (if truthy (backgroundColor f) then [''backgroundColor''] else [])
      @ (if wants_textFormat f then [''textFormat''] else [])"
  by (simp add: keys_italic keys_bold keys_fontSize keys_textColor keys_background wants_textFormat_def)

lemma keys_userFormatting: "keys_of (userFormatting pf f) = expected_keys f"
  unfolding userFormatting_def expected_keys_def keys_vertical keys_horizontal keys_text_part
  by simp

lemma mask_of_expected:
  "mask_names (''userEnteredFormat('' @ join '','' (expected_keys f) @ '')'') = Some (expected_keys f)"
  by (simp add: expected_keys_def mask_names_def starts_with_def split_on_def)

lemma distinct_expected: "distinct (expected_keys f)"
  by (simp add: expected_keys_def)

text \<open>
  C7. For the formatting \<^verbatim>\<open>{bold: true, backgroundColor: "#ff0000"}\<close> the format object has
  exactly the keys \<open>backgroundColor\<close> and \<open>textFormat\<close>, its background is red 1, green 0,
  blue 0, and the field mask is \<open>userEnteredFormat(backgroundColor,textFormat)\<close>. For every
  formatting, the names listed by the field mask of the request are exactly the top-level
  keys of the format object of the request, each once: the keys that the caller's
  attributes fall under.
\<close>

theorem format_mask_is_keys:
  "userFormatting pf red_bold
     = [(''backgroundColor'', Obj [(''red'', Num 1), (''green'', Num 0), (''blue'', Num 0), (''alpha'', Num 1)]),
        (''textFormat'', Obj [(''bold'', Bool True)])]
   \<and> fields_mask (format_request pf sid grid red_bold) = ''userEnteredFormat(backgroundColor,textFormat)''
   \<and> mask_names (fields_mask (format_request pf sid grid f))
       = Some (keys_of (userEnteredFormat (format_request pf sid grid f)))
   \<and> keys_of (userEnteredFormat (format_request pf sid grid f)) = expected_keys f
   \<and> distinct (keys_of (userEnteredFormat (format_request pf sid grid f)))"
proof -
  have example: "userFormatting pf red_bold
     = [(''backgroundColor'', Obj [(''red'', Num 1), (''green'', Num 0), (''blue'', Num 0), (''alpha'', Num 1)]),
        (''textFormat'', Obj [(''bold'', Bool True)])]"
    by (simp add: userFormatting_def red_bold_def put_backgroundColor_def put_textColor_def
        put_fontSize_def put_bold_def put_italic_def put_horizontalAlignment_def
        put_verticalAlignment_def hexToRgb_red color_def set_textFormat_def spread_textFormat_def)
  have req: "fields_mask (format_request pf sid grid f) = fields_of (userFormatting pf f)"
    "userEnteredFormat (format_request pf sid grid f) = userFormatting pf f" for f
    by (simp_all add: format_request_def split: prod.split)
  have mask: "fields_of (userFormatting pf red_bold) = ''userEnteredFormat(backgroundColor,textFormat)''"
    by (simp add: fields_of_def keys_of_def example)
  have general: "mask_names (fields_of (userFormatting pf f)) = Some (keys_of (userFormatting pf f))"
    by (simp only: fields_of_def keys_userFormatting mask_of_expected)
  from example mask general keys_userFormatting [of pf f] distinct_expected [of f]
  show ?thesis by (simp only: req simp_thms)
qed

section \<open>The search filter: proofs\<close>

lemma escapedQuery_Nil: "escapedQuery [] = []"
  by (simp add: escapedQuery_def replace_all_def)

lemma escapedQuery_Cons: "escapedQuery (c # cs) = escape_char c @ escapedQuery cs"
  by (simp add: escapedQuery_def replace_all_def escape_char_def backslash_def quote_def)

lemma escapedQuery_chars: "escapedQuery q = concat (map escape_char q)"
  by (induction q) (simp_all add: escapedQuery_Nil escapedQuery_Cons)

lemma read_escaped: "read_literal (escapedQuery q @ quote # rest) = Some (q, rest)"
  by (induction q)
    (simp_all add: escapedQuery_Nil escapedQuery_Cons escape_char_def backslash_def quote_def)

text \<open>
  C10. For every query string, the filter sent to the backend is \<open>fullText contains '...'\<close>
  around the query in which each backslash is doubled and each single quote is prefixed
  by a backslash; no quote of the query ends the literal: read back as a quoted literal,
  the filter's literal is the query, closed by the final quote. The search fails exactly
  when the backend's listing for that filter fails.
\<close>

theorem search_filter_escaped:
  "formattedQuery q = ''fullText contains '' @ [quote] @ concat (map escape_char q) @ [quote]
   \<and> read_literal (concat (map escape_char q) @ [quote] @ rest) = Some (q, rest)
   \<and> isl (search_tool g (args\<lparr>arg_query := Some q\<rparr>)) = isl (files_list g (formattedQuery q))"
proof -
  have sent: "isl (search_tool g (args\<lparr>arg_query := Some q\<rparr>)) = isl (files_list g (formattedQuery q))"
    by (cases "files_list g (formattedQuery q)") (simp_all add: search_tool_def Let_def)
  with read_escaped [of q rest] show ?thesis
    by (simp add: formattedQuery_def escapedQuery_chars)
qed

section \<open>The range of a whole sheet: proofs\<close>

lemma numberToString_10: "numberToString 10 = ''10''"
  by code_simp

text \<open>
  C6. When \<^verbatim>\<open>read_sheet\<close> is called with a sheet name and no range, and the sheet of that
  name has 10 rows and 3 columns, the range it reads is \<open><sheetName>!A1:C10\<close>.
\<close>

theorem read_sheet_default_range:
  assumes "name \<noteq> []" and "\<not> truthy rangeInput"
    and "spreadsheets_get g fileId = Inr (Some sheets)"
    and "find (\<lambda>s. title s = Some name) sheets = Some sh"
    and "rowCount sh = Some 10" and "columnCount sh = Some 3"
  shows "effectiveRange g fileId (Some name) rangeInput = Inr (js (name @ ''!A1:C10''))"
  using assms
  by (simp add: effectiveRange_def usedRange_def or_default_def lastColumnLetter_def
      fromCharCode_def js_def numberToString_10)

theorem read_sheet_default_range_witness:
  "''Data'' \<noteq> [] \<and> \<not> truthy None
   \<and> spreadsheets_get sample_google ''f1'' = Inr (Some [sample_sheet])
   \<and> find (\<lambda>s. title s = Some ''Data'') [sample_sheet] = Some sample_sheet
   \<and> rowCount sample_sheet = Some 10 \<and> columnCount sample_sheet = Some 3
   \<and> effectiveRange sample_google ''f1'' (Some ''Data'') None = Inr (js ''Data!A1:C10'')"
proof -
  have facts: "''Data'' \<noteq> []" "\<not> truthy None"
    "spreadsheets_get sample_google ''f1'' = Inr (Some [sample_sheet])"
    "find (\<lambda>s. title s = Some ''Data'') [sample_sheet] = Some sample_sheet"
    "rowCount sample_sheet = Some 10" "columnCount sample_sheet = Some 3"
    by (simp_all add: truthy_def sample_google_def sample_sheet_def)
  from read_sheet_default_range [OF facts] facts show ?thesis by simp
qed

text \<open>
  C5. The conversion from a number of columns to the letter of the last column is a single
  \<^verbatim>\<open>String.fromCharCode(64 + n)\<close>. Up to 26 columns it gives the column's letter, which
  \<open>columnLetterToNumber\<close> takes back to the index; at 27 columns (index 26, column \<open>AA\<close>) it
  gives the character \<open>[\<close>, which is no column name (though its code unit, read by
  \<open>columnLetterToNumber\<close>, is again 26), and the range of the whole sheet becomes
  \<open>Data!A1:[10\<close>.
\<close>

theorem lastColumnLetter_27:
  "lastColumnLetter 27 = js ''[''
   \<and> \<not> uppercase ''[''
   \<and> columnLetterToNumber (js ''AA'') = Finite 26
   \<and> lastColumnLetter 27 \<noteq> js ''AA''
   \<and> columnLetterToNumber (lastColumnLetter 27) = Finite 26
   \<and> usedRange ''Data'' (sample_sheet\<lparr>columnCount := Some 27\<rparr>) = js ''Data!A1:[10''
   \<and> lastColumnLetter 26 = js ''Z''"
  by (simp add: lastColumnLetter_def fromCharCode_def js_def uppercase_def alphabet_def
      columnLetterToNumber_def times26_def number_plus_def number_of_exact
      usedRange_def or_default_def sample_sheet_def numberToString_10)

lemma lastColumnLetter_single:
  assumes "1 \<le> n" "n \<le> 26"
  shows "lastColumnLetter n = js [alphabet ! (n - 1)]"
    and "columnLetterToNumber (lastColumnLetter n) = Finite (int n - 1)"
proof -
  from assms have "n \<in> {1, 2, 3, 4, 5, 6, 7, 8, 9, 10, 11, 12, 13, 14, 15, 16, 17, 18, 19, 20,
      21, 22, 23, 24, 25, 26}"
    by (simp only: insert_iff empty_iff) arith
  then show "lastColumnLetter n = js [alphabet ! (n - 1)]"
    by (auto simp: lastColumnLetter_def fromCharCode_def js_def alphabet_def)
  from assms show "columnLetterToNumber (lastColumnLetter n) = Finite (int n - 1)"
    by (simp add: lastColumnLetter_def fromCharCode_def columnLetterToNumber_def times26_def
        number_plus_def number_of_exact)
qed

section \<open>Colors: proofs\<close>

lemma map_of_assign:
  "map_of (assign k v u) k' = (if k' = k then Some v else map_of u k')"
  by (induction u) auto

lemma spread_set_textFormat:
  "spread_textFormat (set_textFormat k v u) = assign k v (spread_textFormat u)"
  by (simp add: set_textFormat_def spread_textFormat_def map_of_assign)

lemma spread_assign_other:
  "k \<noteq> ''textFormat'' \<Longrightarrow> spread_textFormat (assign k v u) = spread_textFormat u"
  by (simp add: spread_textFormat_def map_of_assign)

text \<open>The steps after the one that writes a color leave that color in place.\<close>

lemma background_kept:
  "map_of (put_textColor f u) ''backgroundColor'' = map_of u ''backgroundColor''"
  "map_of (put_fontSize f u) ''backgroundColor'' = map_of u ''backgroundColor''"
  "map_of (put_bold f u) ''backgroundColor'' = map_of u ''backgroundColor''"
  "map_of (put_italic f u) ''backgroundColor'' = map_of u ''backgroundColor''"
  "map_of (put_horizontalAlignment pf f u) ''backgroundColor'' = map_of u ''backgroundColor''"
  "map_of (put_verticalAlignment pf f u) ''backgroundColor'' = map_of u ''backgroundColor''"
  by (simp_all add: put_textColor_def put_fontSize_def put_bold_def put_italic_def
      put_horizontalAlignment_def put_verticalAlignment_def set_textFormat_def map_of_assign
      split: option.split)

lemma foreground_kept:
  "map_of (spread_textFormat (put_fontSize f u)) ''foregroundColor''
     = map_of (spread_textFormat u) ''foregroundColor''"
  "map_of (spread_textFormat (put_bold f u)) ''foregroundColor''
     = map_of (spread_textFormat u) ''foregroundColor''"
  "map_of (spread_textFormat (put_italic f u)) ''foregroundColor''
     = map_of (spread_textFormat u) ''foregroundColor''"
  "map_of (spread_textFormat (put_horizontalAlignment pf f u)) ''foregroundColor''
     = map_of (spread_textFormat u) ''foregroundColor''"
  "map_of (spread_textFormat (put_verticalAlignment pf f u)) ''foregroundColor''
     = map_of (spread_textFormat u) ''foregroundColor''"
  by (simp_all add: put_fontSize_def put_bold_def put_italic_def put_horizontalAlignment_def
      put_verticalAlignment_def spread_set_textFormat spread_assign_other map_of_assign
      split: option.split)

lemma background_written:
  assumes "hex \<noteq> []"
  shows "map_of (userFormatting pf (f\<lparr>backgroundColor := Some hex\<rparr>)) ''backgroundColor''
    = Some (color (hexToRgb hex))"
  using assms
  by (simp add: userFormatting_def background_kept put_backgroundColor_def map_of_assign)

lemma foreground_written:
  assumes "hex \<noteq> []"
  shows "map_of (spread_textFormat (userFormatting pf (f\<lparr>textColor := Some hex\<rparr>))) ''foregroundColor''
    = Some (color (hexToRgb hex))"
  using assms
  by (simp add: userFormatting_def foreground_kept put_textColor_def spread_set_textFormat
      map_of_assign)

lemma empty_color_skipped:
  "userFormatting pf (f\<lparr>backgroundColor := Some []\<rparr>) = userFormatting pf (f\<lparr>backgroundColor := None\<rparr>)"
  "userFormatting pf (f\<lparr>textColor := Some []\<rparr>) = userFormatting pf (f\<lparr>textColor := None\<rparr>)"
  by (simp_all add: userFormatting_def put_backgroundColor_def put_textColor_def put_fontSize_def
      put_bold_def put_italic_def put_horizontalAlignment_def put_verticalAlignment_def)

text \<open>
  C8 (as amended). For a color string that is not six hexadecimal digits after an optional
  \<open>#\<close>, \<open>hexToRgb\<close> raises no error: it returns \<open>r = g = b = 0\<close>. When such a string is
  not empty, the format object of the request that \<^verbatim>\<open>format_sheet\<close> sends carries black as
  its \<open>backgroundColor\<close> (the string given as background color), respectively as the
  \<open>foregroundColor\<close> of its \<open>textFormat\<close> (the string given as text color). An empty color
  string is skipped by the guard \<^verbatim>\<open>if (formatting.backgroundColor)\<close>, respectively
  \<^verbatim>\<open>if (formatting.textColor)\<close>: the format object is the one of a formatting without
  that color.
\<close>

theorem hexToRgb_malformed:
  assumes "hex_match hex = None"
  shows "hexToRgb hex = (0, 0, 0)
    \<and> (hex \<noteq> [] \<longrightarrow>
         map_of (userEnteredFormat (format_request pf sid grid (f\<lparr>backgroundColor := Some hex\<rparr>)))
             ''backgroundColor''
           = Some (color (0, 0, 0))
         \<and> map_of (spread_textFormat
                (userEnteredFormat (format_request pf sid grid (f\<lparr>textColor := Some hex\<rparr>))))
             ''foregroundColor''
           = Some (color (0, 0, 0)))
    \<and> userEnteredFormat (format_request pf sid grid (f\<lparr>backgroundColor := Some []\<rparr>))
        = userEnteredFormat (format_request pf sid grid (f\<lparr>backgroundColor := None\<rparr>))
    \<and> userEnteredFormat (format_request pf sid grid (f\<lparr>textColor := Some []\<rparr>))
        = userEnteredFormat (format_request pf sid grid (f\<lparr>textColor := None\<rparr>))"
proof -
  from assms have black: "hexToRgb hex = (0, 0, 0)"
    by (simp add: hexToRgb_def)
  have req: "userEnteredFormat (format_request pf sid grid f') = userFormatting pf f'" for f'
    by (simp add: format_request_def split: prod.split)
  from black background_written [of hex pf f] foreground_written [of hex pf f]
    empty_color_skipped [of pf f]
  show ?thesis by (simp add: req)
qed

theorem hexToRgb_malformed_witness:
  "hex_match ''red'' = None \<and> ''red'' \<noteq> [] \<and> hexToRgb ''red'' = (0, 0, 0)
   \<and> map_of (userEnteredFormat (format_request sample_platform 7
          (Finite 0, Finite 0, Finite 1, Finite 1) (red_bold\<lparr>backgroundColor := Some ''red''\<rparr>)))
        ''backgroundColor''
       = Some (Obj [(''red'', Num 0), (''green'', Num 0), (''blue'', Num 0), (''alpha'', Num 1)])
   \<and> map_of (spread_textFormat (userEnteredFormat (format_request sample_platform 7
          (Finite 0, Finite 0, Finite 1, Finite 1) (red_bold\<lparr>textColor := Some ''red''\<rparr>))))
        ''foregroundColor''
       = Some (Obj [(''red'', Num 0), (''green'', Num 0), (''blue'', Num 0), (''alpha'', Num 1)])"
proof -
  have none: "hex_match ''red'' = None"
    by (simp add: hex_match_def)
  from hexToRgb_malformed [OF none, of sample_platform 7 "(Finite 0, Finite 0, Finite 1, Finite 1)"
      red_bold] none
  show ?thesis by (simp add: color_def)
qed

text \<open>
  As stated, the claim fails: the color \<open>red\<close> is not a hex literal, no error is raised,
  and \<^verbatim>\<open>format_sheet\<close> returns a result that is not an error.
\<close>

theorem hexToRgb_malformed_counterexample:
  "hex_match ''red'' = None
   \<and> hexToRgb ''red'' = (0, 0, 0)
   \<and> map_sum message isError (gdrive_call_tool sample_platform sample_google ''format_sheet'' paint_request)
       = Inr False"
  by code_simp

section \<open>Access verification: proofs\<close>

lemma includes_js_infix: "includes_js (xs @ e @ ys) e"
proof (induction xs)
  case Nil
  show ?case
  proof (cases "e @ ys")
    case Nil
    then show ?thesis by simp
  next
    case (Cons a l)
    have "starts_with e (e @ ys)" by (simp add: starts_with_def)
    with Cons show ?thesis by simp
  qed
next
  case (Cons x xs)
  then show ?case by simp
qed

lemma no_edit_message_email: "includes_js (no_edit_message email) email"
proof -
  have "\<exists>xs ys. no_edit_message email = xs @ email @ ys"
    unfolding no_edit_message_def by (metis append.assoc)
  then show ?thesis using includes_js_infix by auto
qed

text \<open>
  C9 (as amended). For a spreadsheet whose metadata and list of permissions the backend
  returns: when its capabilities do not report \<open>canEdit = true\<close>, a verification that
  requires edit access fails with the access-denied error, whose message includes the
  current identity's email; when it is shared with anyone or with a domain, a verification
  that does not require edit access succeeds, whatever the capability flags are.
\<close>

theorem verifyFileAccess_policy:
  assumes "files_get g fileId = Inr file"
    and "mimeType file = Some m" and "includes_js m ''spreadsheet''"
    and "permissions_list g fileId = Inr permissions"
  shows "(canEdit file \<noteq> Some True \<longrightarrow>
           verifyFileAccess g fileId True = Inl (Error None (no_edit_message (getCurrentUserEmail g)))
           \<and> includes_js (no_edit_message (getCurrentUserEmail g)) (getCurrentUserEmail g))
    \<and> (isPublic permissions \<longrightarrow> verifyFileAccess g fileId False = Inr True)
    \<and> (about_get g = Inr (Some email) \<longrightarrow> getCurrentUserEmail g = email)"
  using assms no_edit_message_email [of "getCurrentUserEmail g"]
  by (auto simp: verifyFileAccess_def verifyFileAccess_try_def Let_def getCurrentUserEmail_def
      truthy_def print_string_def)

lemma sample_email: "getCurrentUserEmail sample_google = ''user@example.com''"
  by (simp add: getCurrentUserEmail_def sample_google_def truthy_def print_string_def)

theorem verifyFileAccess_policy_witness:
  "files_get sample_google ''sheet1''
     = Inr \<lparr>mimeType = Some ''application/vnd.google-apps.spreadsheet'',
            canReadRevisions = Some False, canEdit = Some False\<rparr>
   \<and> includes_js ''application/vnd.google-apps.spreadsheet'' ''spreadsheet''
   \<and> permissions_list sample_google ''sheet1'' = Inr (Some [\<lparr>perm_type = Some ''anyone''\<rparr>])
   \<and> isPublic (Some [\<lparr>perm_type = Some ''anyone''\<rparr>])
   \<and> verifyFileAccess sample_google ''sheet1'' True
       = Inl (Error None (no_edit_message ''user@example.com''))
   \<and> verifyFileAccess sample_google ''sheet1'' False = Inr True"
proof -
  have meta: "files_get sample_google ''sheet1''
     = Inr \<lparr>mimeType = Some ''application/vnd.google-apps.spreadsheet'',
            canReadRevisions = Some False, canEdit = Some False\<rparr>"
    by (simp add: sample_google_def)
  have mime: "mimeType \<lparr>mimeType = Some ''application/vnd.google-apps.spreadsheet'',
            canReadRevisions = Some False, canEdit = Some False\<rparr>
      = Some ''application/vnd.google-apps.spreadsheet''"
    by simp
  have sheet: "includes_js ''application/vnd.google-apps.spreadsheet'' ''spreadsheet''"
    by (simp add: starts_with_def)
  have perms: "permissions_list sample_google ''sheet1'' = Inr (Some [\<lparr>perm_type = Some ''anyone''\<rparr>])"
    by (simp add: sample_google_def)
  have pub: "isPublic (Some [\<lparr>perm_type = Some ''anyone''\<rparr>])"
    by (simp add: isPublic_def)
  from verifyFileAccess_policy [OF meta mime sheet perms, of "''user@example.com''"] meta sheet perms pub
  show ?thesis by (simp add: sample_email)
qed

text \<open>
  As stated, for any object, both parts fail: a PDF that is shared with anyone is refused
  before the policy is consulted, with an error that carries no email; and when the
  listing of permissions is refused, that error is what the verification throws.
\<close>

theorem verifyFileAccess_policy_counterexample:
  "canEdit \<lparr>mimeType = Some ''application/pdf'', canReadRevisions = Some False, canEdit = Some False\<rparr> = Some False
   \<and> files_get sample_google ''doc''
       = Inr \<lparr>mimeType = Some ''application/pdf'', canReadRevisions = Some False, canEdit = Some False\<rparr>
   \<and> isPublic (Some [\<lparr>perm_type = Some ''anyone''\<rparr>])
   \<and> permissions_list sample_google ''doc'' = Inr (Some [\<lparr>perm_type = Some ''anyone''\<rparr>])
   \<and> verifyFileAccess sample_google ''doc'' True = Inl (Error None ''File khong phai la Google Spreadsheet'')
   \<and> \<not> includes_js ''File khong phai la Google Spreadsheet'' ''user@example.com''
   \<and> verifyFileAccess sample_google ''doc'' False = Inl (Error None ''File khong phai la Google Spreadsheet'')
   \<and> verifyFileAccess sample_google_forbidden ''sheet1'' True = Inl (Error (Some 403) ''Forbidden'')
   \<and> verifyFileAccess sample_google_forbidden ''sheet1'' False = Inl (Error (Some 403) ''Forbidden'')"
  by (simp add: sample_google_def sample_google_forbidden_def verifyFileAccess_def
      verifyFileAccess_try_def isPublic_def not_spreadsheet_message_def starts_with_def)

section \<open>The CallTool handlers: proofs\<close>

lemma verifyFileAccess_True: "verifyFileAccess g fileId requireEdit = Inr ok \<Longrightarrow> ok"
  by (auto simp: verifyFileAccess_def verifyFileAccess_try_def Let_def
      split: sum.splits if_splits)

lemma list_sheets_caught:
  "\<exists>result. list_sheets_tool pf g args = Inr result
     \<and> (isl (list_sheets_try pf g args) \<longrightarrow> isError result)
     \<and> (\<not> isError result \<longrightarrow>
          (\<exists>fileId. extractFileIdFromUrl pf (arg_fileId args) = Inr fileId
             \<and> verifyFileAccess g fileId False = Inr True))"
  by (auto simp: list_sheets_tool_def list_sheets_try_def list_sheets_failure_def
      split: sum.splits dest: verifyFileAccess_True)

lemma read_sheet_caught:
  "\<exists>result. read_sheet_tool pf g args = Inr result
     \<and> (isl (read_sheet_try pf g args) \<longrightarrow> isError result)
     \<and> (\<not> isError result \<longrightarrow>
          (\<exists>fileId. extractFileIdFromUrl pf (arg_fileId args) = Inr fileId
             \<and> verifyFileAccess g fileId False = Inr True))"
  by (auto simp: read_sheet_tool_def read_sheet_try_def read_sheet_failure_def access_failure_def
      Let_def split: sum.splits option.splits if_splits dest: verifyFileAccess_True)

lemma edit_sheet_caught:
  "\<exists>result. edit_sheet_tool pf g args = Inr result
     \<and> (isl (edit_sheet_try pf g args) \<longrightarrow> isError result)
     \<and> (\<not> isError result \<longrightarrow>
          (\<exists>fileId. extractFileIdFromUrl pf (arg_fileId args) = Inr fileId
             \<and> verifyFileAccess g fileId True = Inr True))"
  by (auto simp: edit_sheet_tool_def edit_sheet_try_def edit_sheet_failure_def access_failure_def
      Let_def split: sum.splits option.splits if_splits dest: verifyFileAccess_True)

lemma format_sheet_caught:
  "\<exists>result. format_sheet_tool pf g args = Inr result
     \<and> (isl (format_sheet_try pf g args) \<longrightarrow> isError result)
     \<and> (\<not> isError result \<longrightarrow>
          (\<exists>fileId. extractFileIdFromUrl pf (arg_fileId args) = Inr fileId
             \<and> verifyFileAccess g fileId True = Inr True))"
  by (auto simp: format_sheet_tool_def format_sheet_try_def format_sheet_failure_def access_failure_def
      Let_def split: sum.splits option.splits if_splits dest: verifyFileAccess_True)


lemma unknown_tool:
  "name \<notin> set (''search'' # guarded_tools) \<Longrightarrow>
   gdrive_call_tool pf g name args = Inl (Error None ''Tool not found'')"
  by (simp add: gdrive_call_tool_def guarded_tools_def)

lemma guarded_tool_caught:
  assumes "name \<in> set guarded_tools"
  shows "\<exists>result. gdrive_call_tool pf g name args = Inr result
     \<and> (isl (guarded_try pf g name args) \<longrightarrow> isError result)
     \<and> (\<not> isError result \<longrightarrow>
          (\<exists>fileId. extractFileIdFromUrl pf (arg_fileId args) = Inr fileId
             \<and> verifyFileAccess g fileId (requires_edit name) = Inr True))"
proof -
  from assms consider "name = ''list_sheets''" | "name = ''read_sheet''"
    | "name = ''edit_sheet''" | "name = ''format_sheet''"
    by (auto simp: guarded_tools_def)
  then show ?thesis
  proof cases
    case 1
    with list_sheets_caught [of pf g args] show ?thesis
      by (simp add: gdrive_call_tool_def guarded_try_def requires_edit_def)
  next
    case 2
    with read_sheet_caught [of pf g args] show ?thesis
      by (simp add: gdrive_call_tool_def guarded_try_def requires_edit_def)
  next
    case 3
    with edit_sheet_caught [of pf g args] show ?thesis
      by (simp add: gdrive_call_tool_def guarded_try_def requires_edit_def)
  next
    case 4
    with format_sheet_caught [of pf g args] show ?thesis
      by (simp add: gdrive_call_tool_def guarded_try_def requires_edit_def)
  qed
qed

lemma query_rethrown:
  "getConnection db = None \<and> beginTransaction db = None \<and> query db sql = Inl e \<Longrightarrow>
   fst (mysql_call_tool db ''query'' sql) = Inl e"
  by (simp add: mysql_call_tool_def query_tool_def query_try_def)

text \<open>
  C2 (as amended). A CallTool request whose name matches no registered tool fails with a
  thrown error, on both servers. For \<^verbatim>\<open>list_sheets\<close>, \<^verbatim>\<open>read_sheet\<close>, \<^verbatim>\<open>edit_sheet\<close> and
  \<^verbatim>\<open>format_sheet\<close> the handler always returns a result: any failure of the guarded block
  gives \<open>isError = true\<close>, and a result that is not an error means that the file reference
  was resolved and the access verification passed. The \<^verbatim>\<open>query\<close> tool rethrows the error of
  its query.
\<close>

theorem call_tool_failures:
  "(name \<notin> set (''search'' # guarded_tools) \<longrightarrow>
      gdrive_call_tool pf g name args = Inl (Error None ''Tool not found''))
   \<and> (name \<in> set guarded_tools \<longrightarrow>
        (\<exists>result. gdrive_call_tool pf g name args = Inr result
           \<and> (isl (guarded_try pf g name args) \<longrightarrow> isError result)
           \<and> (\<not> isError result \<longrightarrow>
                (\<exists>fileId. extractFileIdFromUrl pf (arg_fileId args) = Inr fileId
                   \<and> verifyFileAccess g fileId (requires_edit name) = Inr True))))
   \<and> (name \<noteq> ''query'' \<longrightarrow>
        mysql_call_tool db name sql = (Inl (Error None (''Unknown tool: '' @ name)), []))
   \<and> (getConnection db = None \<and> beginTransaction db = None \<and> query db sql = Inl e \<longrightarrow>
        fst (mysql_call_tool db ''query'' sql) = Inl e)"
  using unknown_tool [of name pf g args] guarded_tool_caught [of name pf g args]
    query_rethrown [of db sql e]
  by (simp add: mysql_call_tool_def)

theorem call_tool_failures_witness:
  "''bogus'' \<notin> set (''search'' # guarded_tools)
   \<and> gdrive_call_tool sample_platform sample_google ''bogus'' no_arguments
       = Inl (Error None ''Tool not found'')
   \<and> ''edit_sheet'' \<in> set guarded_tools
   \<and> verifyFileAccess sample_google ''sheet1'' True
       = Inl (Error None (no_edit_message ''user@example.com''))
   \<and> map_sum message isError (gdrive_call_tool sample_platform sample_google ''edit_sheet''
        (no_arguments\<lparr>arg_fileId := Some ''sheet1''\<rparr>)) = Inr True
   \<and> mysql_call_tool failing_db ''bogus'' None = (Inl (Error None ''Unknown tool: bogus''), [])
   \<and> fst (mysql_call_tool failing_db ''query'' (Some ''SELEC'')) = Inl (Error (Some 1064) ''syntax error'')"
proof -
  have names: "''bogus'' \<notin> set (''search'' # guarded_tools)" "''edit_sheet'' \<in> set guarded_tools"
    "''bogus'' \<noteq> ''query''"
    by (simp_all add: guarded_tools_def)
  have db: "getConnection failing_db = None \<and> beginTransaction failing_db = None
      \<and> query failing_db (Some ''SELEC'') = Inl (Error (Some 1064) ''syntax error'')"
    by (simp add: failing_db_def)
  have denied: "verifyFileAccess sample_google ''sheet1'' True
       = Inl (Error None (no_edit_message ''user@example.com''))"
    by code_simp
  have edit: "map_sum message isError (gdrive_call_tool sample_platform sample_google ''edit_sheet''
        (no_arguments\<lparr>arg_fileId := Some ''sheet1''\<rparr>)) = Inr True"
    by code_simp
  from call_tool_failures [where name = "''bogus''" and pf = sample_platform and g = sample_google
      and args = no_arguments and db = failing_db and sql = None] names
  have unknown: "gdrive_call_tool sample_platform sample_google ''bogus'' no_arguments
       = Inl (Error None ''Tool not found'')"
    "mysql_call_tool failing_db ''bogus'' None = (Inl (Error None ''Unknown tool: bogus''), [])"
    by simp_all
  from call_tool_failures [where db = failing_db and sql = "Some ''SELEC''"
      and e = "Error (Some 1064) ''syntax error''"] db
  have thrown: "fst (mysql_call_tool failing_db ''query'' (Some ''SELEC'')) = Inl (Error (Some 1064) ''syntax error'')"
    by simp
  from names denied edit unknown thrown show ?thesis by simp
qed

text \<open>
  As stated, for every registered tool, the claim fails: a backend failure during
  \<^verbatim>\<open>search\<close> is thrown by the handler, and so is a failed query of the \<^verbatim>\<open>query\<close> tool.
\<close>

theorem call_tool_failures_counterexample:
  "gdrive_call_tool sample_platform sample_google ''search'' (no_arguments\<lparr>arg_query := Some ''report''\<rparr>)
     = Inl (Error (Some 500) ''Internal Error'')
   \<and> files_list sample_google (formattedQuery ''report'') = Inl (Error (Some 500) ''Internal Error'')
   \<and> fst (mysql_call_tool failing_db ''query'' (Some ''SELEC'')) = Inl (Error (Some 1064) ''syntax error'')"
  by code_simp

end
